theory Spec2Isabelle
  imports Complex_Main
begin

section \<open>Python values: exceptions, palettes, tables\<close>

text \<open>
  The module \<^verbatim>\<open>juanPlot/__init__.py\<close> draws bar charts and heatmaps of gene-expression
  tables. Every function takes a pandas table, slices a fixed column range out of it,
  looks colours up in a palette dictionary and calls matplotlib. The model keeps the three
  exceptions these steps can raise, records every matplotlib call in the order it is made,
  and returns that record together with the exception (if any) that ended the call.
\<close>

datatype error =
    IndexError          \<comment> \<open>positional index out of bounds (\<^verbatim>\<open>iloc[0, ...]\<close> on a table without rows, \<^verbatim>\<open>a[i]\<close>)\<close>
  | KeyError string     \<comment> \<open>\<^verbatim>\<open>pC[k]\<close> for a key the palette lacks\<close>
  | ValueError          \<comment> \<open>\<^verbatim>\<open>ax.bar\<close>: shape mismatch, x and height cannot be broadcast\<close>

text \<open>A palette \<^verbatim>\<open>pC\<close> is a dictionary from key to colour; \<^verbatim>\<open>None\<close> is the default argument.\<close>

type_synonym palette = "(string \<times> string) list"

definition getitem :: "palette \<Rightarrow> string \<Rightarrow> error + string" where
  "getitem pC k = (case map_of pC k of None \<Rightarrow> Inl (KeyError k) | Some c \<Rightarrow> Inr c)"

text \<open>A list display \<^verbatim>\<open>[pC[k1], pC[k2], ...]\<close> evaluates left to right; the first missing key raises.\<close>

fun getitems :: "palette \<Rightarrow> string list \<Rightarrow> error + string list" where
  "getitems pC [] = Inr []"
| "getitems pC (k # ks) =
     (case getitem pC k of
        Inl e \<Rightarrow> Inl e
      | Inr c \<Rightarrow> (case getitems pC ks of Inl e \<Rightarrow> Inl e | Inr cs \<Rightarrow> Inr (c # cs)))"

text \<open>\<^verbatim>\<open>if not pC: pC = {...}\<close>: \<^verbatim>\<open>None\<close> and the empty dictionary are both falsy.\<close>

definition not_pC :: "palette option \<Rightarrow> bool" where
  "not_pC pC = (case pC of None \<Rightarrow> True | Some d \<Rightarrow> d = [])"

definition if_not_pC :: "palette option \<Rightarrow> palette \<Rightarrow> palette" where
  "if_not_pC pC dflt = (if not_pC pC then dflt else the pC)"

text \<open>
  A table: the column named \<^verbatim>\<open>symbol\<close> (every table passed in has one), the number of
  columns, and the rows by position, each row holding one cell per column. Cells are finite
  numbers (text columns lie before the sliced ranges and are not read).
\<close>

record dataframe =
  symbol :: "string list"
  ncolumns :: nat
  cells :: "real list list"

text \<open>A slice \<^verbatim>\<open>a:b\<close> with \<open>0 \<le> a\<close>: positions past the end are dropped, nothing is raised.\<close>

definition slice :: "nat \<Rightarrow> nat \<Rightarrow> 'a list \<Rightarrow> 'a list" where
  "slice a b xs = take (b - a) (drop a xs)"

text \<open>\<^verbatim>\<open>barData.iloc[0, a:b].to_numpy()\<close>: row 0 must exist; the column slice is clipped.\<close>

definition iloc_row0 :: "dataframe \<Rightarrow> nat \<Rightarrow> nat \<Rightarrow> error + real list" where
  "iloc_row0 barData a b =
     (case cells barData of [] \<Rightarrow> Inl IndexError | r # _ \<Rightarrow> Inr (slice a b r))"

text \<open>\<^verbatim>\<open>heatmapData.iloc[0:, a:b]\<close>: all rows, the column slice clipped.\<close>

definition iloc_cols :: "dataframe \<Rightarrow> nat \<Rightarrow> nat \<Rightarrow> dataframe" where
  "iloc_cols df a b =
     \<lparr>symbol = symbol df, ncolumns = min b (ncolumns df) - a, cells = map (slice a b) (cells df)\<rparr>"

text \<open>\<^verbatim>\<open>np.arange(a, b)\<close> on integers, and \<^verbatim>\<open>c + np.arange(a, b)\<close>.\<close>

definition arange :: "nat \<Rightarrow> nat \<Rightarrow> real list" where
  "arange a b = map real [a..<b]"

definition shifted :: "real \<Rightarrow> real list \<Rightarrow> real list" where
  "shifted c xs = map (\<lambda>x. c + x) xs"

section \<open>Floating-point results of row normalisation\<close>

text \<open>
  \<^verbatim>\<open>x / x.max()\<close> divides by zero without raising: numpy yields \<^verbatim>\<open>nan\<close> for \<open>0/0\<close> and a
  signed infinity otherwise. The data block of a heatmap therefore holds these values too.
\<close>

datatype num = Fin real | PInf | NInf | NaN

definition fdiv :: "real \<Rightarrow> real \<Rightarrow> num" where
  "fdiv x m = (if m = 0 then (if x = 0 then NaN else if 0 < x then PInf else NInf)
               else Fin (x / m))"

text \<open>\<^verbatim>\<open>x.max()\<close>. On an empty row pandas gives \<^verbatim>\<open>nan\<close>; the value is never used there,
  since an empty row has no cell to divide.\<close>

fun maximum :: "real list \<Rightarrow> real" where
  "maximum [] = 0"
| "maximum (x # xs) = fold max xs x"

text \<open>\<^verbatim>\<open>lambda x: x/x.max()\<close> on one row (an empty row has nothing to divide).\<close>

definition norm_row :: "real list \<Rightarrow> num list" where
  "norm_row x = map (\<lambda>v. fdiv v (maximum x)) x"

text \<open>A two-dimensional array: \<^verbatim>\<open>shape[1]\<close> is kept, since it is read when there is no row.\<close>

record ndarray =
  shape1 :: nat
  rows :: "num list list"

definition shape0 :: "ndarray \<Rightarrow> nat" where
  "shape0 a = length (rows a)"

text \<open>\<^verbatim>\<open>df.values\<close> and \<^verbatim>\<open>df.apply(lambda x: x/x.max(), axis=1).values\<close>.\<close>

definition values_of :: "dataframe \<Rightarrow> ndarray" where
  "values_of df = \<lparr>shape1 = ncolumns df, rows = map (map Fin) (cells df)\<rparr>"

definition apply_norm :: "dataframe \<Rightarrow> ndarray" where
  "apply_norm df = \<lparr>shape1 = ncolumns df, rows = map norm_row (cells df)\<rparr>"

definition ones :: "nat \<Rightarrow> nat \<Rightarrow> ndarray" where
  "ones n m = \<lparr>shape1 = m, rows = replicate n (replicate m (Fin 1))\<rparr>"

section \<open>The drawing surface\<close>

text \<open>
  Each call on the axes is one entry of the trace. Font, spine and tick styling is kept as
  a named entry without arguments. The axes argument \<^verbatim>\<open>ax\<close> (or the current axes when it
  is missing) is the surface the trace is drawn on.
\<close>

datatype draw =
    Bar "real list" "real list" real "string list"   \<comment> \<open>x, height, width, color\<close>
  | DefaultFonts
  | Cosmetic string
  | Set_xticks "real list"
  | Set_xticks_minor "real list"
  | Set_yticks "real list"
  | Set_xticklabels "string list"
  | Set_yticklabels "string list"
  | Set_ylabel string
  | Set_title string
  | Imshow "num list list" string                     \<comment> \<open>data, cmap\<close>
  | Colorbar
  | Cbar_set_ylabel string
  | Axhline real string real                          \<comment> \<open>y, color, linewidth\<close>
  | Axvline real string real                          \<comment> \<open>x, color, linewidth\<close>
  | Plot "real \<times> real" "real \<times> real" string          \<comment> \<open>[x0, x1], [y0, y1], color\<close>
  | Text real real string string string real          \<comment> \<open>x, y, s, color, ha, rotation\<close>

type_synonym run = "draw list \<times> error option"

definition raise :: "error \<Rightarrow> run" where
  "raise e = ([], Some e)"

definition then_draw :: "draw list \<Rightarrow> run \<Rightarrow> run" where
  "then_draw ds r = (ds @ fst r, snd r)"

definition done_ok :: run where
  "done_ok = ([], None)"

text \<open>
  \<^verbatim>\<open>ax.bar(n, h, width=0.8, ..., color=barColors)\<close> first broadcasts x and height against
  each other (numpy: equal lengths, or one of them of length one) and raises before any
  patch is added when that fails. The colour list is cycled over the bars, so its length
  is never checked.
\<close>

definition ax_bar :: "real list \<Rightarrow> real list \<Rightarrow> string list \<Rightarrow> error + draw" where
  "ax_bar n h barColors =
     (if length h = length n then Inr (Bar n h 0.8 barColors)
      else if length h = 1 then Inr (Bar n (replicate (length n) (hd h)) 0.8 barColors)
      else if length n = 1 then Inr (Bar (replicate (length h) (hd n)) h 0.8 barColors)
      else Inl ValueError)"

text \<open>The common tail of every bar function: colours, the bar call, the formatting.\<close>

definition bars_then :: "real list \<Rightarrow> error + real list \<Rightarrow> error + string list \<Rightarrow> draw list \<Rightarrow> run" where
  "bars_then n h barColors fmt =
     (case h of
        Inl e \<Rightarrow> raise e
      | Inr h \<Rightarrow>
         (case barColors of
            Inl e \<Rightarrow> raise e
          | Inr barColors \<Rightarrow>
             (case ax_bar n h barColors of
                Inl e \<Rightarrow> raise e
              | Inr pH \<Rightarrow> then_draw (pH # fmt) done_ok)))"

section \<open>Default palettes\<close>

text \<open>The photoreceptor palette written out in eight functions (lines 75, 116, 158, 198, 682, 715, 746, 773).\<close>

definition pC_photoreceptors :: palette where
  "pC_photoreceptors =
    [(''r'', ''#747474''), (''u'', ''#B540B7''), (''s'', ''#4669F2''), (''m'', ''#04CD22''),
     (''l'', ''#CC2C2A''), (''m4'', ''#cdcd04''), (''onBC'', ''#ccf2ff''), (''offBC'', ''#663d00'')]"

definition pC_Hoang2020_Ret_bars :: palette where
  "pC_Hoang2020_Ret_bars =
    [
     (''RPC'', ''#DADADA''), (''PRPC'', ''#dfdac8''), (''Cones_larval'', ''#dcc360''),
     (''Cones_adult'', ''#ffd429''), (''Rods'', ''#7d7d7d''), (''HC'', ''#FC7715''),
     (''BC_larval'', ''#ccf2ff''), (''BC_adult'', ''#1B98C3''), (''AC_larval'', ''#3DF591''),
     (''ACgaba'', ''#3DF5C3''), (''ACgly'', ''#56F53D''), (''RGC_larval'', ''#F53D59''),
     (''RGC_adult'', ''#BB0622''), (''MGi'', ''#EA9D81''), (''MG1'', ''#A2644E''),
     (''MG2'', ''#7E4835''), (''MG3'', ''#613728'')]"

definition pC_Hoang2020_Ret_heatmap :: palette where
  "pC_Hoang2020_Ret_heatmap =
    [
     (''RPC'', ''#DADADA''), (''PRPC'', ''#dfdac8''), (''Cones_larval'', ''#dcc360''),
     (''Cones_adult'', ''#ffd429''), (''Rods'', ''#7d7d7d''), (''HC'', ''#FC7715''),
     (''BC_larval'', ''#ccf2ff''), (''BC_adult'', ''#663d00''), (''AC_larval'', ''#3DF591''),
     (''ACgaba'', ''#3DF5C3''), (''ACgly'', ''#56F53D''), (''RGC_larval'', ''#F53D59''),
     (''RGC_adult'', ''#BB0622''), (''MGi'', ''#EA9D81''), (''MG1'', ''#A2644E''),
     (''MG2'', ''#7E4835''), (''MG3'', ''#613728'')]"

definition keys_Hoang2020_Ret :: "string list" where
  "keys_Hoang2020_Ret =
    [
     ''RPC'', ''PRPC'', ''Cones_larval'', ''Cones_adult'', ''Rods'', ''HC'', ''BC_larval'',
     ''BC_adult'', ''AC_larval'', ''ACgaba'', ''ACgly'', ''RGC_larval'', ''RGC_adult'',
     ''MGi'', ''MG1'', ''MG2'', ''MG3'']"

definition pC_Hoang2020_PhotoDev :: palette where
  "pC_Hoang2020_PhotoDev =
    [
     (''RPC'', ''#DADADA''), (''PRP'', ''#dfdac8''), (''Cle'', ''#dacd9a''),
     (''Clm'', ''#dcc360''), (''Cll'', ''#cca819''), (''C'', ''#ffd429''), (''R'', ''#7d7d7d'')]"

definition pC_Hoang2020_PhotoDev_withcontaminatedlarvalrods :: palette where
  "pC_Hoang2020_PhotoDev_withcontaminatedlarvalrods =
    [
     (''RPC'', ''#DADADA''), (''PRP'', ''#dfdac8''), (''Cle'', ''#dacd9a''),
     (''Clm'', ''#dcc360''), (''Cll'', ''#cca819''), (''C'', ''#ffd429''),
     (''Rll'', ''#a3a3a3''), (''R'', ''#7d7d7d'')]"

definition pC_Xu2020_RetDev :: palette where
  "pC_Xu2020_RetDev =
    [
     (''RPC24h_prim'', ''#E9E9E9''), (''RPC24h'', ''#D2D2D2''), (''RPC24h_D'', ''#D2B6AF''),
     (''RPC24h_V'', ''#AFAFD2''), (''RPC24h_T'', ''#AFD2B0''), (''RPC24h_N'', ''#D2D1AF''),
     (''RPC24h_neuro'', ''#F5E5E8''), (''RPC36h_prim'', ''#E9E9E9''),
     (''RPC36h'', ''#D2D2D2''), (''RPC36h_D'', ''#D2B6AF''), (''RPC36h_V'', ''#AFAFD2''),
     (''RPC36h_T'', ''#AFD2B0''), (''RPC36h_N'', ''#D2D1AF''), (''RPC36h_hc'', ''#C5B39D''),
     (''RPC36h_neuro'', ''#F5E5E8''), (''RPC48h_prim'', ''#E9E9E9''),
     (''RPC48h'', ''#D2D2D2''), (''RPC48h_neuro'', ''#F5E5E8''),
     (''RPC48h_neuroMix'', ''#F5E5E8''), (''RPC48h_rgc'', ''#EA9D81''),
     (''RPC48h_MG'', ''#F5CCD2''), (''PRPC48h'', ''#dfdac8''), (''Photo48h'', ''#dacd9a''),
     (''HC48h'', ''#FCCAA5''), (''BC48h'', ''#7DAAAF''), (''BC48h_on'', ''#8398B1''),
     (''BC48h_off'', ''#B16D8A''), (''AC48h'', ''#95F5C1''), (''AC48h_gaba'', ''#91F5DA''),
     (''AC48h_sac'', ''#78AD93''), (''RGC48h'', ''#F53D59''), (''RPC72h_prim'', ''#E9E9E9''),
     (''RPC72h_neuro'', ''#F5E5E8''), (''RPC72h_bc'', ''#CCF2FF''),
     (''RPC72h_rgc'', ''#F5CCD2''), (''PRPC72h'', ''#DFDAC8''),
     (''Rod72h_early'', ''#A3A3A3''), (''Rod72h'', ''#7D7D7D''),
     (''Cone72h_early'', ''#DACD9A''), (''Cone72h_earlyL'', ''#D69F9E''),
     (''Cone72h'', ''#DCC360''), (''Cone72h_UV'', ''#B778B9''), (''Cone72h_S'', ''#7183CC''),
     (''Cone72h_M'', ''#57CB69''), (''Cone72h_L'', ''#C67271''),
     (''Cone72h_lateL'', ''#CE524F''), (''HC72h_early'', ''#FCCBA8''),
     (''HC72h'', ''#FCA668''), (''HC72h_H1'', ''#C59965''), (''HC72h_H2H3'', ''#F7909C''),
     (''BC72h_on'', ''#8398B1''), (''AC72h'', ''#3DF591''), (''AC72h_gly'', ''#91F5DA''),
     (''AC72h_gaba'', ''#95F5C1''), (''AC72h_sac'', ''#78AD93''), (''RGC72h'', ''#F53D59''),
     (''MG72h'', ''#EA9D81''), (''RPC336h_prim'', ''#E9E9E9''),
     (''RPC336h_neuro'', ''#F5E5E8''), (''RPC336h_bc'', ''#CCF2FF''),
     (''RPC336h_ac'', ''#B5F5D2''), (''RPC336h_rgc'', ''#F5CCD2''),
     (''PRPC336h'', ''#DFDAC8''), (''Rod336h'', ''#7D7D7D''), (''Cone336h'', ''#FFD429''),
     (''Cone336h_U'', ''#B778B9''), (''Cone336h_S'', ''#7183CC''),
     (''Cone336h_M'', ''#57CB69''), (''Cone336h_L'', ''#C67271''),
     (''Cone336h_lateL'', ''#CE524F''), (''HC336h'', ''#FCA668''),
     (''BC336h_on'', ''#8398B1''), (''BC336h_off'', ''#B16D8A''),
     (''AC336h_gaba'', ''#3DF5C3''), (''AC336h_gly'', ''#56F53D''),
     (''AC336h_ngng'', ''#89AC25''), (''AC336h_sac'', ''#78AD93''),
     (''AC336h_dac'', ''#A4D1D8''), (''RGC336h'', ''#F53D59''), (''MG336h'', ''#EA9D81'')]"

definition keys_Xu2020_RetDev :: "string list" where
  "keys_Xu2020_RetDev =
    [
     ''RPC24h_prim'', ''RPC24h'', ''RPC24h_D'', ''RPC24h_V'', ''RPC24h_T'', ''RPC24h_N'',
     ''RPC24h_neuro'', ''RPC36h_prim'', ''RPC36h'', ''RPC36h_D'', ''RPC36h_V'', ''RPC36h_T'',
     ''RPC36h_N'', ''RPC36h_hc'', ''RPC36h_neuro'', ''RPC48h_prim'', ''RPC48h'',
     ''RPC48h_neuro'', ''RPC48h_neuroMix'', ''RPC48h_rgc'', ''RPC48h_MG'', ''PRPC48h'',
     ''Photo48h'', ''HC48h'', ''BC48h'', ''BC48h_on'', ''BC48h_off'', ''AC48h'',
     ''AC48h_gaba'', ''AC48h_sac'', ''RGC48h'', ''RPC72h_prim'', ''RPC72h_neuro'',
     ''RPC72h_bc'', ''RPC72h_rgc'', ''PRPC72h'', ''Rod72h_early'', ''Rod72h'',
     ''Cone72h_early'', ''Cone72h_earlyL'', ''Cone72h'', ''Cone72h_UV'', ''Cone72h_S'',
     ''Cone72h_M'', ''Cone72h_L'', ''Cone72h_lateL'', ''HC72h_early'', ''HC72h'', ''HC72h_H1'',
     ''HC72h_H2H3'', ''BC72h_on'', ''AC72h'', ''AC72h_gly'', ''AC72h_gaba'', ''AC72h_sac'',
     ''RGC72h'', ''MG72h'', ''RPC336h_prim'', ''RPC336h_neuro'', ''RPC336h_bc'',
     ''RPC336h_ac'', ''RPC336h_rgc'', ''PRPC336h'', ''Rod336h'', ''Cone336h'', ''Cone336h_U'',
     ''Cone336h_S'', ''Cone336h_M'', ''Cone336h_L'', ''Cone336h_lateL'', ''HC336h'',
     ''BC336h_on'', ''BC336h_off'', ''AC336h_gaba'', ''AC336h_gly'', ''AC336h_ngng'',
     ''AC336h_sac'', ''AC336h_dac'', ''RGC336h'', ''MG336h'']"

definition pC_Nerli2022 :: palette where
  "pC_Nerli2022 =
    [(''RPC'', ''#DADADA''), (''PR'', ''#dcc360''), (''HC_AC'', ''#3DF591''), (''RGC'', ''#F53D59'')]"

definition pC_Yoshimatsu2020 :: palette where
  "pC_Yoshimatsu2020 = [(''u'', ''#B540B7''), (''u2'', ''#B789A7'')]"

section \<open>Bar plots\<close>

text \<open>\<^verbatim>\<open>formatBarPlot\<close> and its siblings (lines 90-97, 129-139, 171-181, 210-217, 270-280, 319-329, 500-510, 543-551, 579-586).\<close>

definition formatBarPlot :: "string \<Rightarrow> draw list" where
  "formatBarPlot geneSymbol =
     [DefaultFonts,
      Set_xticks [3.5, 10, 16.5, 24, 31.5],
      Set_xticklabels [''Rods'', ''UV'', ''S'', ''M'', ''L''],
      Set_ylabel ''FPKM'',
      Set_title geneSymbol]"

definition formatBarPlot_Ogawa2021 :: "string \<Rightarrow> bool \<Rightarrow> draw list" where
  "formatBarPlot_Ogawa2021 geneSymbol pctPlot =
     [DefaultFonts,
      Set_xticks (arange 1 9),
      Set_xticklabels [''Rods'', ''UV'', ''S'', ''M'', ''L'', ''M4'', ''BC$_{on}$'', ''BC$_{off}$''],
      Cosmetic ''xaxis.set_tick_params(rotation=45)'',
      Set_ylabel ''avg. counts'']
     @ (if pctPlot then [Set_ylabel ''% expressing''] else [])
     @ [Set_title geneSymbol]"

definition formatBarPlot_Hoang2020 :: "string \<Rightarrow> bool \<Rightarrow> draw list" where
  "formatBarPlot_Hoang2020 geneSymbol pctPlot =
     [DefaultFonts,
      Set_xticks (arange 1 8),
      Set_xticklabels [''Rods'', ''UV'', ''S'', ''M1'', ''M3'', ''M4'', ''L''],
      Cosmetic ''xaxis.set_tick_params(rotation=45)'',
      Set_ylabel ''avg. counts'']
     @ (if pctPlot then [Set_ylabel ''% expressing''] else [])
     @ [Set_title geneSymbol]"

definition formatBarPlot_Sun2018 :: "string \<Rightarrow> draw list" where
  "formatBarPlot_Sun2018 geneSymbol =
     [DefaultFonts,
      Set_xticks [2.5, 7.5],
      Set_xticklabels [''Rods'', ''notRods''],
      Set_ylabel ''cpm'',
      Set_title geneSymbol]"

definition formatBarPlot_Hoang2020_Ret :: "string \<Rightarrow> bool \<Rightarrow> draw list" where
  "formatBarPlot_Hoang2020_Ret geneSymbol pctPlot =
     [DefaultFonts,
      Set_xticks (arange 1 18),
      Set_xticklabels [''RPC'', ''PRPC'', ''C$_{larval}$'', ''C$_{adult}$'', ''R$_{ods}$'', ''HC'',
        ''BC$_{larval}$'', ''BC$_{adult}$'', ''AC$_{larval}$'', ''AC$_{GABA}$'', ''AC$_{Gly}$'',
        ''RGC$_{larval}$'', ''RGC$_{adult}$'', ''MGi'', ''MG1'', ''MG2'', ''MG3''],
      Cosmetic ''setp(xticklabels, rotation=45)'',
      Set_ylabel ''avg. counts'']
     @ (if pctPlot then [Set_ylabel ''% expressing''] else [])
     @ [Set_title geneSymbol]"

definition formatBarPlot_Hoang2020_PhotoDev :: "string \<Rightarrow> bool \<Rightarrow> draw list" where
  "formatBarPlot_Hoang2020_PhotoDev geneSymbol pctPlot =
     [DefaultFonts,
      Set_xticks (arange 1 8),
      Set_xticklabels [''RPC'', ''PRPC'', ''Cone$_{larval-early}$'', ''Cone$_{larval-mid}$'',
        ''Cone$_{larval-late}$'', ''Cone'', ''Rod''],
      Cosmetic ''setp(xticklabels, rotation=45)'',
      Set_ylabel ''avg. counts'']
     @ (if pctPlot then [Set_ylabel ''% expressing''] else [])
     @ [Set_title geneSymbol]"

definition formatBarPlot_Xu2020_RetDev :: "string \<Rightarrow> bool \<Rightarrow> draw list" where
  "formatBarPlot_Xu2020_RetDev geneSymbol pctPlot =
     [DefaultFonts,
      Set_xticks (arange 1 81),
      Set_xticklabels keys_Xu2020_RetDev,
      Cosmetic ''setp(xticklabels, rotation=45)'',
      Set_ylabel ''avg. counts'']
     @ (if pctPlot then [Set_ylabel ''% expressing''] else [])
     @ [Set_title geneSymbol]"

definition formatBarPlot_Nerli2022 :: "string \<Rightarrow> draw list" where
  "formatBarPlot_Nerli2022 geneSymbol =
     [DefaultFonts,
      Set_xticks [2, 7.5, 13, 18.5],
      Set_xticklabels [''RPC'', ''Photo'', ''HC/AC'', ''RGC''],
      Set_xticks_minor [0, 1, 2, 3, 4, 5.5, 6.5, 7.5, 8.5, 9.5, 11, 12, 13, 14, 15,
                        16.5, 17.5, 18.5, 19.5, 20.5],
      Set_ylabel ''counts (norm.)'',
      Set_title geneSymbol]"

definition formatBarPlot_Yoshimatsu2020 :: "string \<Rightarrow> draw list" where
  "formatBarPlot_Yoshimatsu2020 geneSymbol =
     [DefaultFonts,
      Set_xticks [2.5, 7.5],
      Set_xticklabels [''UV$_{non-sz}$'', ''UV$_{sz}$''],
      Set_ylabel ''cpm'',
      Set_title geneSymbol]"

text \<open>\<^verbatim>\<open>plotBars\<close>, lines 57-88.\<close>

definition plotBars :: "dataframe \<Rightarrow> string \<Rightarrow> palette option \<Rightarrow> run" where
  "plotBars barData geneSymbol pC =
     (let n = arange 1 7 @ shifted 7 (arange 1 6) @ shifted 13 (arange 1 7)
                @ shifted 20 (arange 1 8) @ shifted 28 (arange 1 7);
          h_start = 7;
          h_end = 37;
          h = iloc_row0 barData h_start h_end;
          pC = if_not_pC pC pC_photoreceptors;
          barColors = getitems pC
            [''r'', ''r'', ''r'', ''r'', ''r'', ''r'',
             ''u'', ''u'', ''u'', ''u'', ''u'',
             ''s'', ''s'', ''s'', ''s'', ''s'', ''s'',
             ''m'', ''m'', ''m'', ''m'', ''m'', ''m'', ''m'',
             ''l'', ''l'', ''l'', ''l'', ''l'', ''l'']
      in bars_then n h barColors (formatBarPlot geneSymbol))"

text \<open>\<^verbatim>\<open>plotBars_Ogawa2021\<close>, lines 99-127.\<close>

definition plotBars_Ogawa2021 :: "dataframe \<Rightarrow> string \<Rightarrow> palette option \<Rightarrow> bool \<Rightarrow> run" where
  "plotBars_Ogawa2021 barData geneSymbol pC pctPlot =
     (let n = arange 1 9;
          delta = (if pctPlot then 9 else 0);
          h_start = 2 + delta;
          h_end = 10 + delta;
          h = iloc_row0 barData h_start h_end;
          pC = if_not_pC pC pC_photoreceptors;
          barColors = getitems pC [''r'', ''u'', ''s'', ''m'', ''l'', ''m4'', ''onBC'', ''offBC'']
      in bars_then n h barColors (formatBarPlot_Ogawa2021 geneSymbol pctPlot))"

text \<open>\<^verbatim>\<open>plotBars_Hoang2020\<close>, lines 141-169.\<close>

definition plotBars_Hoang2020 :: "dataframe \<Rightarrow> string \<Rightarrow> palette option \<Rightarrow> bool \<Rightarrow> run" where
  "plotBars_Hoang2020 barData geneSymbol pC pctPlot =
     (let n = arange 1 8;
          delta = (if pctPlot then 8 else 0);
          h_start = 2 + delta;
          h_end = 9 + delta;
          h = iloc_row0 barData h_start h_end;
          pC = if_not_pC pC pC_photoreceptors;
          barColors = getitems pC [''r'', ''u'', ''s'', ''m'', ''m'', ''m4'', ''l'']
      in bars_then n h barColors (formatBarPlot_Hoang2020 geneSymbol pctPlot))"

text \<open>\<^verbatim>\<open>plotBars_Sun2018\<close>, lines 183-208.\<close>

definition plotBars_Sun2018 :: "dataframe \<Rightarrow> string \<Rightarrow> palette option \<Rightarrow> run" where
  "plotBars_Sun2018 barData geneSymbol pC =
     (let n = arange 1 5 @ shifted 5 (arange 1 5);
          h_start = 7;
          h_end = 16;
          h = iloc_row0 barData h_start h_end;
          pC = if_not_pC pC pC_photoreceptors;
          barColors = getitems pC [''r'', ''r'', ''r'', ''r'', ''m4'', ''m4'', ''m4'', ''m4'']
      in bars_then n h barColors (formatBarPlot_Sun2018 geneSymbol))"

text \<open>\<^verbatim>\<open>plotBars_Hoang2020_Ret\<close>, lines 219-268.\<close>

definition plotBars_Hoang2020_Ret :: "dataframe \<Rightarrow> string \<Rightarrow> palette option \<Rightarrow> bool \<Rightarrow> run" where
  "plotBars_Hoang2020_Ret barData geneSymbol pC pctPlot =
     (let n = arange 1 18;
          delta = (if pctPlot then 19 else 0);
          h_start = 2 + delta;
          h_end = 19 + delta;
          h = iloc_row0 barData h_start h_end;
          pC = if_not_pC pC pC_Hoang2020_Ret_bars;
          barColors = getitems pC keys_Hoang2020_Ret
      in bars_then n h barColors (formatBarPlot_Hoang2020_Ret geneSymbol pctPlot))"

text \<open>\<^verbatim>\<open>plotBars_Hoang2020_PhotoDev\<close>, lines 282-317.\<close>

definition plotBars_Hoang2020_PhotoDev :: "dataframe \<Rightarrow> string \<Rightarrow> palette option \<Rightarrow> bool \<Rightarrow> run" where
  "plotBars_Hoang2020_PhotoDev barData geneSymbol pC pctPlot =
     (let n = arange 1 8;
          delta = (if pctPlot then 8 else 0);
          h_start = 2 + delta;
          h_end = 9 + delta;
          h = iloc_row0 barData h_start h_end;
          pC = if_not_pC pC pC_Hoang2020_PhotoDev;
          barColors = getitems pC [''RPC'', ''PRP'', ''Cle'', ''Clm'', ''Cll'', ''C'', ''R'']
      in bars_then n h barColors (formatBarPlot_Hoang2020_PhotoDev geneSymbol pctPlot))"

text \<open>
  \<^verbatim>\<open>plotBars_Hoang2020_PhotoDev_withcontaminatedlarvalrods\<close>, lines 331-368. It formats
  with \<^verbatim>\<open>formatBarPlot_Hoang2020_PhotoDev\<close> (line 367).
\<close>

definition plotBars_Hoang2020_PhotoDev_withcontaminatedlarvalrods ::
    "dataframe \<Rightarrow> string \<Rightarrow> palette option \<Rightarrow> bool \<Rightarrow> run" where
  "plotBars_Hoang2020_PhotoDev_withcontaminatedlarvalrods barData geneSymbol pC pctPlot =
     (let n = arange 1 9;
          delta = (if pctPlot then 9 else 0);
          h_start = 2 + delta;
          h_end = 10 + delta;
          h = iloc_row0 barData h_start h_end;
          pC = if_not_pC pC pC_Hoang2020_PhotoDev_withcontaminatedlarvalrods;
          barColors = getitems pC [''RPC'', ''PRP'', ''Cle'', ''Clm'', ''Cll'', ''C'', ''Rll'', ''R'']
      in bars_then n h barColors (formatBarPlot_Hoang2020_PhotoDev geneSymbol pctPlot))"

text \<open>\<^verbatim>\<open>plotBars_Xu2020_RetDev\<close>, lines 383-498.\<close>

definition plotBars_Xu2020_RetDev :: "dataframe \<Rightarrow> string \<Rightarrow> palette option \<Rightarrow> bool \<Rightarrow> run" where
  "plotBars_Xu2020_RetDev barData geneSymbol pC pctPlot =
     (let n = arange 1 81;
          delta = (if pctPlot then 82 else 0);
          h_start = 2 + delta;
          h_end = 82 + delta;
          h = iloc_row0 barData h_start h_end;
          pC = if_not_pC pC pC_Xu2020_RetDev;
          barColors = getitems pC keys_Xu2020_RetDev
      in bars_then n h barColors (formatBarPlot_Xu2020_RetDev geneSymbol pctPlot))"

text \<open>\<^verbatim>\<open>plotBars_Nerli2022\<close>, lines 513-541.\<close>

definition plotBars_Nerli2022 :: "dataframe \<Rightarrow> string \<Rightarrow> palette option \<Rightarrow> run" where
  "plotBars_Nerli2022 barData geneSymbol pC =
     (let n = arange 0 5 @ shifted 4.5 (arange 1 6) @ shifted 10 (arange 1 6)
                @ shifted 15.5 (arange 1 6);
          h_start = 1;
          h_end = 21;
          h = iloc_row0 barData h_start h_end;
          pC = if_not_pC pC pC_Nerli2022;
          barColors = getitems pC
            [''RPC'', ''RPC'', ''RPC'', ''RPC'', ''RPC'',
             ''PR'', ''PR'', ''PR'', ''PR'', ''PR'',
             ''HC_AC'', ''HC_AC'', ''HC_AC'', ''HC_AC'', ''HC_AC'',
             ''RGC'', ''RGC'', ''RGC'', ''RGC'', ''RGC'']
      in bars_then n h barColors (formatBarPlot_Nerli2022 geneSymbol))"

text \<open>\<^verbatim>\<open>plotBars_Yoshimatsu2020\<close>, lines 553-577.\<close>

definition plotBars_Yoshimatsu2020 :: "dataframe \<Rightarrow> string \<Rightarrow> palette option \<Rightarrow> run" where
  "plotBars_Yoshimatsu2020 barData geneSymbol pC =
     (let n = arange 1 5 @ shifted 5 (arange 1 5);
          h_start = 1;
          h_end = 9;
          h = iloc_row0 barData h_start h_end;
          pC = if_not_pC pC pC_Yoshimatsu2020;
          barColors = getitems pC [''u2'', ''u2'', ''u2'', ''u2'', ''u'', ''u'', ''u'', ''u'']
      in bars_then n h barColors (formatBarPlot_Yoshimatsu2020 geneSymbol))"

text \<open>The ten bar functions under one name, for statements about all of them.\<close>

datatype bar_wrapper =
    PlotBars | PlotBars_Ogawa2021 | PlotBars_Hoang2020 | PlotBars_Sun2018
  | PlotBars_Hoang2020_Ret | PlotBars_Hoang2020_PhotoDev
  | PlotBars_Hoang2020_PhotoDev_withcontaminatedlarvalrods
  | PlotBars_Xu2020_RetDev | PlotBars_Nerli2022 | PlotBars_Yoshimatsu2020

fun call_bars :: "bar_wrapper \<Rightarrow> dataframe \<Rightarrow> string \<Rightarrow> palette option \<Rightarrow> bool \<Rightarrow> run" where
  "call_bars PlotBars barData g pC pctPlot = plotBars barData g pC"
| "call_bars PlotBars_Ogawa2021 barData g pC pctPlot = plotBars_Ogawa2021 barData g pC pctPlot"
| "call_bars PlotBars_Hoang2020 barData g pC pctPlot = plotBars_Hoang2020 barData g pC pctPlot"
| "call_bars PlotBars_Sun2018 barData g pC pctPlot = plotBars_Sun2018 barData g pC"
| "call_bars PlotBars_Hoang2020_Ret barData g pC pctPlot = plotBars_Hoang2020_Ret barData g pC pctPlot"
| "call_bars PlotBars_Hoang2020_PhotoDev barData g pC pctPlot =
     plotBars_Hoang2020_PhotoDev barData g pC pctPlot"
| "call_bars PlotBars_Hoang2020_PhotoDev_withcontaminatedlarvalrods barData g pC pctPlot =
     plotBars_Hoang2020_PhotoDev_withcontaminatedlarvalrods barData g pC pctPlot"
| "call_bars PlotBars_Xu2020_RetDev barData g pC pctPlot = plotBars_Xu2020_RetDev barData g pC pctPlot"
| "call_bars PlotBars_Nerli2022 barData g pC pctPlot = plotBars_Nerli2022 barData g pC"
| "call_bars PlotBars_Yoshimatsu2020 barData g pC pctPlot = plotBars_Yoshimatsu2020 barData g pC"

section \<open>Heatmaps\<close>

text \<open>The arguments with which a dataset function calls \<^verbatim>\<open>heatmap_general\<close>.\<close>

record hm_args =
  hm_data :: ndarray
  hm_row_labels :: "string list"
  hm_col_labels :: "string list"
  hm_groupsN :: "nat list"
  hm_groupsColors :: "string list"
  hm_groupsLabels :: "string list"
  hm_cbarlabel :: string
  hm_groupRotation :: real

text \<open>\<^verbatim>\<open>np.arange(-.5, k+.5)\<close>: the \<open>k + 1\<close> positions \<open>-0.5, 0.5, ..., k - 0.5\<close>.\<close>

definition half_steps :: "nat \<Rightarrow> real list" where
  "half_steps k = map (\<lambda>i. real i - 0.5) [0..<Suc k]"

text \<open>
  The loop over the groups, lines 654-661. \<^verbatim>\<open>groupsColors[i]\<close> and \<^verbatim>\<open>groupsLabels[i]\<close> are
  numpy reads and raise when \<open>i\<close> is out of bounds, after the lines drawn so far.
\<close>

fun group_loop :: "nat \<Rightarrow> nat list \<Rightarrow> string list \<Rightarrow> string list \<Rightarrow> real \<Rightarrow> nat list \<Rightarrow> run" where
  "group_loop n0 gN gColors gLabels rot [] = done_ok"
| "group_loop n0 gN gColors gLabels rot (i # is) =
     (let lo = real (sum_list (take i gN)) - 0.5;
          hi = real (sum_list (take (i + 1) gN)) - 0.5
      in then_draw [Axvline hi ''white'' 3]
          (if length gColors \<le> i then raise IndexError
           else then_draw
             [Plot (lo, hi) (- 0.5, - 0.5) (gColors ! i),
              Plot (lo, hi) (real n0 - 0.5, real n0 - 0.5) (gColors ! i)]
             (if length gLabels \<le> i then raise IndexError
              else then_draw
                [Text ((real (sum_list (take i gN)) + real (sum_list (take (i + 1) gN))) / 2 - 0.5)
                      (- 1) (gLabels ! i) (gColors ! i)
                      (if rot = 0 then ''center'' else ''left'') rot]
                (group_loop n0 gN gColors gLabels rot is))))"

text \<open>\<^verbatim>\<open>heatmap_general\<close>, lines 590-662.\<close>

definition heatmap_general :: "hm_args \<Rightarrow> run" where
  "heatmap_general a =
     (let (data, row_labels) =
            (if shape0 (hm_data a) = 0
             then (ones 2 (shape1 (hm_data a)), [''not found'', ''not found''])
             else (hm_data a, hm_row_labels a))
      in then_draw
          ([Imshow (rows data) ''bone'',
            Colorbar,
            Cbar_set_ylabel (hm_cbarlabel a),
            Cosmetic ''cbar.ax.tick_params(labelsize=22)'',
            Set_xticks (arange 0 (shape1 data)),
            Set_yticks (arange 0 (shape0 data)),
            Set_xticklabels (hm_col_labels a),
            Set_yticklabels row_labels,
            Cosmetic ''tick_params(top=True, bottom=False, labeltop=True, labelbottom=False)'',
            Cosmetic ''setp(yticklabels, rotation=30)'',
            Cosmetic ''spines'',
            Cosmetic ''tick_params(which=minor)'']
           @ map (\<lambda>h. Axhline h ''black'' 2) (half_steps (shape0 data))
           @ map (\<lambda>v. Axvline v ''black'' 2) (half_steps (shape1 data))
           @ [Axvline (- 0.5) ''white'' 2,
              Axvline (real (sum_list (hm_groupsN a)) - 0.5) ''white'' 2])
          (group_loop (shape0 data) (hm_groupsN a) (hm_groupsColors a) (hm_groupsLabels a)
             (hm_groupRotation a) [0..<length (hm_groupsN a)]))"

definition call_heatmap_general :: "error + hm_args \<Rightarrow> run" where
  "call_heatmap_general r = (case r of Inl e \<Rightarrow> raise e | Inr a \<Rightarrow> heatmap_general a)"

text \<open>Everything a dataset function does before it calls \<^verbatim>\<open>heatmap_general\<close>.\<close>

definition with_colors ::
    "palette \<Rightarrow> string list \<Rightarrow> (string list \<Rightarrow> hm_args) \<Rightarrow> error + hm_args" where
  "with_colors pC keys k =
     (case getitems pC keys of Inl e \<Rightarrow> Inl e | Inr groupsColors \<Rightarrow> Inr (k groupsColors))"

text \<open>\<^verbatim>\<open>heatmap\<close>, lines 664-689.\<close>

definition heatmap_args :: "dataframe \<Rightarrow> palette option \<Rightarrow> bool \<Rightarrow> error + hm_args" where
  "heatmap_args heatmapData pC norm' =
     (let genenames = symbol heatmapData;
          data = (if norm' then apply_norm (iloc_cols heatmapData 7 37)
                  else values_of (iloc_cols heatmapData 7 37));
          cbarlabel = (if norm' then ''norm. FPKM'' else ''FPKM'');
          groupsN = [6, 5, 6, 7, 6];
          pC = if_not_pC pC pC_photoreceptors
      in with_colors pC [''r'', ''u'', ''s'', ''m'', ''l'']
           (\<lambda>groupsColors.
              \<lparr>hm_data = data, hm_row_labels = genenames, hm_col_labels = [], hm_groupsN = groupsN,
               hm_groupsColors = groupsColors, hm_groupsLabels = [''Rods'', ''UV'', ''S'', ''M'', ''L''],
               hm_cbarlabel = cbarlabel, hm_groupRotation = 0\<rparr>))"

definition heatmap :: "dataframe \<Rightarrow> palette option \<Rightarrow> bool \<Rightarrow> run" where
  "heatmap heatmapData pC norm' = call_heatmap_general (heatmap_args heatmapData pC norm')"

text \<open>\<^verbatim>\<open>heatmap_Ogawa2021\<close>, lines 693-722.\<close>

definition heatmap_Ogawa2021_args ::
    "dataframe \<Rightarrow> palette option \<Rightarrow> bool \<Rightarrow> bool \<Rightarrow> error + hm_args" where
  "heatmap_Ogawa2021_args heatmapData pC pctPlot norm' =
     (let genenames = symbol heatmapData;
          cbarlabel = (if pctPlot then ''%'' else ''avg.'');
          delta = (if pctPlot then 9 else 0);
          data = (if norm' then apply_norm (iloc_cols heatmapData (2 + delta) (10 + delta))
                  else values_of (iloc_cols heatmapData (2 + delta) (10 + delta)));
          cbarlabel = (if norm' then ''norm. '' @ cbarlabel else cbarlabel);
          groupsN = [1, 1, 1, 1, 1, 1, 1, 1];
          pC = if_not_pC pC pC_photoreceptors
      in with_colors pC [''r'', ''u'', ''s'', ''m'', ''l'', ''m4'', ''onBC'', ''offBC'']
           (\<lambda>groupsColors.
              \<lparr>hm_data = data, hm_row_labels = genenames, hm_col_labels = [], hm_groupsN = groupsN,
               hm_groupsColors = groupsColors,
               hm_groupsLabels = [''Rods'', ''UV'', ''S'', ''M'', ''L'', ''M4'', ''B$_{on}$'', ''B$_{off}$''],
               hm_cbarlabel = cbarlabel, hm_groupRotation = 0\<rparr>))"

definition heatmap_Ogawa2021 :: "dataframe \<Rightarrow> palette option \<Rightarrow> bool \<Rightarrow> bool \<Rightarrow> run" where
  "heatmap_Ogawa2021 heatmapData pC pctPlot norm' =
     call_heatmap_general (heatmap_Ogawa2021_args heatmapData pC pctPlot norm')"

text \<open>\<^verbatim>\<open>heatmap_Hoang2020\<close>, lines 724-753.\<close>

definition heatmap_Hoang2020_args ::
    "dataframe \<Rightarrow> palette option \<Rightarrow> bool \<Rightarrow> bool \<Rightarrow> error + hm_args" where
  "heatmap_Hoang2020_args heatmapData pC pctPlot norm' =
     (let genenames = symbol heatmapData;
          cbarlabel = (if pctPlot then ''%'' else ''avg.'');
          delta = (if pctPlot then 8 else 0);
          data = (if norm' then apply_norm (iloc_cols heatmapData (2 + delta) (9 + delta))
                  else values_of (iloc_cols heatmapData (2 + delta) (9 + delta)));
          cbarlabel = (if norm' then ''norm. '' @ cbarlabel else cbarlabel);
          groupsN = [1, 1, 1, 1, 1, 1, 1];
          pC = if_not_pC pC pC_photoreceptors
      in with_colors pC [''r'', ''u'', ''s'', ''m'', ''m'', ''m4'', ''l'']
           (\<lambda>groupsColors.
              \<lparr>hm_data = data, hm_row_labels = genenames, hm_col_labels = [], hm_groupsN = groupsN,
               hm_groupsColors = groupsColors,
               hm_groupsLabels = [''Rods'', ''UV'', ''S'', ''M'', ''M3'', ''M4'', ''L''],
               hm_cbarlabel = cbarlabel, hm_groupRotation = 0\<rparr>))"

definition heatmap_Hoang2020 :: "dataframe \<Rightarrow> palette option \<Rightarrow> bool \<Rightarrow> bool \<Rightarrow> run" where
  "heatmap_Hoang2020 heatmapData pC pctPlot norm' =
     call_heatmap_general (heatmap_Hoang2020_args heatmapData pC pctPlot norm')"

text \<open>\<^verbatim>\<open>heatmap_Sun2018\<close>, lines 755-780.\<close>

definition heatmap_Sun2018_args :: "dataframe \<Rightarrow> palette option \<Rightarrow> bool \<Rightarrow> error + hm_args" where
  "heatmap_Sun2018_args heatmapData pC norm' =
     (let genenames = symbol heatmapData;
          data = (if norm' then apply_norm (iloc_cols heatmapData 7 16)
                  else values_of (iloc_cols heatmapData 7 16));
          cbarlabel = (if norm' then ''norm. cpm'' else ''cpm'');
          groupsN = [4, 4];
          pC = if_not_pC pC pC_photoreceptors
      in with_colors pC [''r'', ''m4'']
           (\<lambda>groupsColors.
              \<lparr>hm_data = data, hm_row_labels = genenames, hm_col_labels = [], hm_groupsN = groupsN,
               hm_groupsColors = groupsColors, hm_groupsLabels = [''Rods'', ''notRods''],
               hm_cbarlabel = cbarlabel, hm_groupRotation = 0\<rparr>))"

definition heatmap_Sun2018 :: "dataframe \<Rightarrow> palette option \<Rightarrow> bool \<Rightarrow> run" where
  "heatmap_Sun2018 heatmapData pC norm' =
     call_heatmap_general (heatmap_Sun2018_args heatmapData pC norm')"

text \<open>\<^verbatim>\<open>heatmap_Nerli2022\<close>, lines 782-806.\<close>

definition heatmap_Nerli2022_args :: "dataframe \<Rightarrow> palette option \<Rightarrow> bool \<Rightarrow> error + hm_args" where
  "heatmap_Nerli2022_args heatmapData pC norm' =
     (let genenames = symbol heatmapData;
          data = (if norm' then apply_norm (iloc_cols heatmapData 1 21)
                  else values_of (iloc_cols heatmapData 1 21));
          cbarlabel = (if norm' then ''norm. FPKM'' else ''Counts (norm.)'');
          groupsN = [5, 5, 5, 5];
          pC = if_not_pC pC pC_Nerli2022
      in with_colors pC [''RPC'', ''PR'', ''HC_AC'', ''RGC'']
           (\<lambda>groupsColors.
              \<lparr>hm_data = data, hm_row_labels = genenames, hm_col_labels = [], hm_groupsN = groupsN,
               hm_groupsColors = groupsColors, hm_groupsLabels = [''RPC'', ''Photo'', ''HC/AC'', ''RGC''],
               hm_cbarlabel = cbarlabel, hm_groupRotation = 0\<rparr>))"

definition heatmap_Nerli2022 :: "dataframe \<Rightarrow> palette option \<Rightarrow> bool \<Rightarrow> run" where
  "heatmap_Nerli2022 heatmapData pC norm' =
     call_heatmap_general (heatmap_Nerli2022_args heatmapData pC norm')"

text \<open>\<^verbatim>\<open>heatmap_Yoshimatsu2020\<close>, lines 808-832.\<close>

definition heatmap_Yoshimatsu2020_args ::
    "dataframe \<Rightarrow> palette option \<Rightarrow> bool \<Rightarrow> error + hm_args" where
  "heatmap_Yoshimatsu2020_args heatmapData pC norm' =
     (let genenames = symbol heatmapData;
          data = (if norm' then apply_norm (iloc_cols heatmapData 1 9)
                  else values_of (iloc_cols heatmapData 1 9));
          cbarlabel = (if norm' then ''norm. cpm'' else ''cpm'');
          groupsN = [4, 4];
          pC = if_not_pC pC pC_Yoshimatsu2020
      in with_colors pC [''u2'', ''u'']
           (\<lambda>groupsColors.
              \<lparr>hm_data = data, hm_row_labels = genenames, hm_col_labels = [], hm_groupsN = groupsN,
               hm_groupsColors = groupsColors, hm_groupsLabels = [''UV$_{non-sz}$'', ''UV$_{sz}$''],
               hm_cbarlabel = cbarlabel, hm_groupRotation = 0\<rparr>))"

definition heatmap_Yoshimatsu2020 :: "dataframe \<Rightarrow> palette option \<Rightarrow> bool \<Rightarrow> run" where
  "heatmap_Yoshimatsu2020 heatmapData pC norm' =
     call_heatmap_general (heatmap_Yoshimatsu2020_args heatmapData pC norm')"

text \<open>\<^verbatim>\<open>heatmap_Hoang2020_Ret\<close>, lines 834-868.\<close>

definition heatmap_Hoang2020_Ret_args ::
    "dataframe \<Rightarrow> palette option \<Rightarrow> bool \<Rightarrow> bool \<Rightarrow> error + hm_args" where
  "heatmap_Hoang2020_Ret_args heatmapData pC pctPlot norm' =
     (let genenames = symbol heatmapData;
          cbarlabel = (if pctPlot then ''%'' else ''avg.'');
          delta = (if pctPlot then 19 else 0);
          data = (if norm' then apply_norm (iloc_cols heatmapData (2 + delta) (19 + delta))
                  else values_of (iloc_cols heatmapData (2 + delta) (19 + delta)));
          cbarlabel = (if norm' then ''norm. '' @ cbarlabel else cbarlabel);
          groupsN = [1, 1, 1, 1, 1, 1, 1, 1, 1, 1, 1, 1, 1, 1, 1, 1, 1];
          pC = if_not_pC pC pC_Hoang2020_Ret_heatmap
      in with_colors pC keys_Hoang2020_Ret
           (\<lambda>groupsColors.
              \<lparr>hm_data = data, hm_row_labels = genenames, hm_col_labels = [], hm_groupsN = groupsN,
               hm_groupsColors = groupsColors,
               hm_groupsLabels = [''RPC'', ''PRPC'', ''C$_{larval}$'', ''C$_{adult}$'', ''R$_{ods}$'',
                 ''HC'', ''BC$_{larval}$'', ''BC$_{adult}$'', ''AC$_{larval}$'', ''AC$_{GABA}$'',
                 ''AC$_{Gly}$'', ''RGC$_{larval}$'', ''RGC$_{adult}$'', ''MGi'', ''MG1'', ''MG2'', ''MG3''],
               hm_cbarlabel = cbarlabel, hm_groupRotation = 45\<rparr>))"

definition heatmap_Hoang2020_Ret :: "dataframe \<Rightarrow> palette option \<Rightarrow> bool \<Rightarrow> bool \<Rightarrow> run" where
  "heatmap_Hoang2020_Ret heatmapData pC pctPlot norm' =
     call_heatmap_general (heatmap_Hoang2020_Ret_args heatmapData pC pctPlot norm')"

text \<open>\<^verbatim>\<open>heatmap_Hoang2020_PhotoDev\<close>, lines 870-911.\<close>

definition heatmap_Hoang2020_PhotoDev_args ::
    "dataframe \<Rightarrow> palette option \<Rightarrow> bool \<Rightarrow> bool \<Rightarrow> error + hm_args" where
  "heatmap_Hoang2020_PhotoDev_args heatmapData pC pctPlot norm' =
     (let genenames = symbol heatmapData;
          cbarlabel = (if pctPlot then ''%'' else ''avg.'');
          delta = (if pctPlot then 8 else 0);
          data = (if norm' then apply_norm (iloc_cols heatmapData (2 + delta) (9 + delta))
                  else values_of (iloc_cols heatmapData (2 + delta) (9 + delta)));
          cbarlabel = (if norm' then ''norm. '' @ cbarlabel else cbarlabel);
          groupsN = [1, 1, 1, 1, 1, 1, 1];
          pC = if_not_pC pC pC_Hoang2020_PhotoDev
      in with_colors pC [''RPC'', ''PRP'', ''Cle'', ''Clm'', ''Cll'', ''C'', ''R'']
           (\<lambda>groupsColors.
              \<lparr>hm_data = data, hm_row_labels = genenames, hm_col_labels = [], hm_groupsN = groupsN,
               hm_groupsColors = groupsColors,
               hm_groupsLabels = [''RPC'', ''PRP'', ''Cone$_{larval-early}$'', ''Cone$_{larval-mid}$'',
                 ''Cone$_{larval-late}$'', ''Cone'', ''Rod''],
               hm_cbarlabel = cbarlabel, hm_groupRotation = 45\<rparr>))"

definition heatmap_Hoang2020_PhotoDev :: "dataframe \<Rightarrow> palette option \<Rightarrow> bool \<Rightarrow> bool \<Rightarrow> run" where
  "heatmap_Hoang2020_PhotoDev heatmapData pC pctPlot norm' =
     call_heatmap_general (heatmap_Hoang2020_PhotoDev_args heatmapData pC pctPlot norm')"

text \<open>\<^verbatim>\<open>heatmap_Hoang2020_PhotoDev_withcontaminatedlarvalrods\<close>, lines 913-956.\<close>

definition heatmap_Hoang2020_PhotoDev_withcontaminatedlarvalrods_args ::
    "dataframe \<Rightarrow> palette option \<Rightarrow> bool \<Rightarrow> bool \<Rightarrow> error + hm_args" where
  "heatmap_Hoang2020_PhotoDev_withcontaminatedlarvalrods_args heatmapData pC pctPlot norm' =
     (let genenames = symbol heatmapData;
          cbarlabel = (if pctPlot then ''%'' else ''avg.'');
          delta = (if pctPlot then 9 else 0);
          data = (if norm' then apply_norm (iloc_cols heatmapData (2 + delta) (10 + delta))
                  else values_of (iloc_cols heatmapData (2 + delta) (10 + delta)));
          cbarlabel = (if norm' then ''norm. '' @ cbarlabel else cbarlabel);
          groupsN = [1, 1, 1, 1, 1, 1, 1, 1];
          pC = if_not_pC pC pC_Hoang2020_PhotoDev_withcontaminatedlarvalrods
      in with_colors pC [''RPC'', ''PRP'', ''Cle'', ''Clm'', ''Cll'', ''C'', ''Rll'', ''R'']
           (\<lambda>groupsColors.
              \<lparr>hm_data = data, hm_row_labels = genenames, hm_col_labels = [], hm_groupsN = groupsN,
               hm_groupsColors = groupsColors,
               hm_groupsLabels = [''RPC'', ''PRPC'', ''Cone$_{larval-early}$'', ''Cone$_{larval-mid}$'',
                 ''Cone$_{larval-late}$'', ''Cone'', ''Rod$_{larval-late}$'', ''Rod''],
               hm_cbarlabel = cbarlabel, hm_groupRotation = 45\<rparr>))"

definition heatmap_Hoang2020_PhotoDev_withcontaminatedlarvalrods ::
    "dataframe \<Rightarrow> palette option \<Rightarrow> bool \<Rightarrow> bool \<Rightarrow> run" where
  "heatmap_Hoang2020_PhotoDev_withcontaminatedlarvalrods heatmapData pC pctPlot norm' =
     call_heatmap_general
       (heatmap_Hoang2020_PhotoDev_withcontaminatedlarvalrods_args heatmapData pC pctPlot norm')"

text \<open>\<^verbatim>\<open>heatmap_Xu2020_RetDev\<close>, lines 958-1088. The percent offset is 81 here (line 972).\<close>

definition heatmap_Xu2020_RetDev_args ::
    "dataframe \<Rightarrow> palette option \<Rightarrow> bool \<Rightarrow> bool \<Rightarrow> error + hm_args" where
  "heatmap_Xu2020_RetDev_args heatmapData pC pctPlot norm' =
     (let genenames = symbol heatmapData;
          cbarlabel = (if pctPlot then ''%'' else ''avg.'');
          delta = (if pctPlot then 81 else 0);
          data = (if norm' then apply_norm (iloc_cols heatmapData (2 + delta) (82 + delta))
                  else values_of (iloc_cols heatmapData (2 + delta) (82 + delta)));
          cbarlabel = (if norm' then ''norm. '' @ cbarlabel else cbarlabel);
          groupsN = replicate 80 1;
          pC = if_not_pC pC pC_Xu2020_RetDev
      in with_colors pC keys_Xu2020_RetDev
           (\<lambda>groupsColors.
              \<lparr>hm_data = data, hm_row_labels = genenames, hm_col_labels = [], hm_groupsN = groupsN,
               hm_groupsColors = groupsColors, hm_groupsLabels = keys_Xu2020_RetDev,
               hm_cbarlabel = cbarlabel, hm_groupRotation = 45\<rparr>))"

definition heatmap_Xu2020_RetDev :: "dataframe \<Rightarrow> palette option \<Rightarrow> bool \<Rightarrow> bool \<Rightarrow> run" where
  "heatmap_Xu2020_RetDev heatmapData pC pctPlot norm' =
     call_heatmap_general (heatmap_Xu2020_RetDev_args heatmapData pC pctPlot norm')"

text \<open>The ten heatmap functions under one name.\<close>

datatype heat_wrapper =
    Heatmap | Heatmap_Ogawa2021 | Heatmap_Hoang2020 | Heatmap_Sun2018 | Heatmap_Nerli2022
  | Heatmap_Yoshimatsu2020 | Heatmap_Hoang2020_Ret | Heatmap_Hoang2020_PhotoDev
  | Heatmap_Hoang2020_PhotoDev_withcontaminatedlarvalrods | Heatmap_Xu2020_RetDev

fun heat_args ::
    "heat_wrapper \<Rightarrow> dataframe \<Rightarrow> palette option \<Rightarrow> bool \<Rightarrow> bool \<Rightarrow> error + hm_args" where
  "heat_args Heatmap df pC pctPlot norm' = heatmap_args df pC norm'"
| "heat_args Heatmap_Ogawa2021 df pC pctPlot norm' = heatmap_Ogawa2021_args df pC pctPlot norm'"
| "heat_args Heatmap_Hoang2020 df pC pctPlot norm' = heatmap_Hoang2020_args df pC pctPlot norm'"
| "heat_args Heatmap_Sun2018 df pC pctPlot norm' = heatmap_Sun2018_args df pC norm'"
| "heat_args Heatmap_Nerli2022 df pC pctPlot norm' = heatmap_Nerli2022_args df pC norm'"
| "heat_args Heatmap_Yoshimatsu2020 df pC pctPlot norm' = heatmap_Yoshimatsu2020_args df pC norm'"
| "heat_args Heatmap_Hoang2020_Ret df pC pctPlot norm' = heatmap_Hoang2020_Ret_args df pC pctPlot norm'"
| "heat_args Heatmap_Hoang2020_PhotoDev df pC pctPlot norm' =
     heatmap_Hoang2020_PhotoDev_args df pC pctPlot norm'"
| "heat_args Heatmap_Hoang2020_PhotoDev_withcontaminatedlarvalrods df pC pctPlot norm' =
     heatmap_Hoang2020_PhotoDev_withcontaminatedlarvalrods_args df pC pctPlot norm'"
| "heat_args Heatmap_Xu2020_RetDev df pC pctPlot norm' = heatmap_Xu2020_RetDev_args df pC pctPlot norm'"

fun call_heatmap ::
    "heat_wrapper \<Rightarrow> dataframe \<Rightarrow> palette option \<Rightarrow> bool \<Rightarrow> bool \<Rightarrow> run" where
  "call_heatmap Heatmap df pC pctPlot norm' = heatmap df pC norm'"
| "call_heatmap Heatmap_Ogawa2021 df pC pctPlot norm' = heatmap_Ogawa2021 df pC pctPlot norm'"
| "call_heatmap Heatmap_Hoang2020 df pC pctPlot norm' = heatmap_Hoang2020 df pC pctPlot norm'"
| "call_heatmap Heatmap_Sun2018 df pC pctPlot norm' = heatmap_Sun2018 df pC norm'"
| "call_heatmap Heatmap_Nerli2022 df pC pctPlot norm' = heatmap_Nerli2022 df pC norm'"
| "call_heatmap Heatmap_Yoshimatsu2020 df pC pctPlot norm' = heatmap_Yoshimatsu2020 df pC norm'"
| "call_heatmap Heatmap_Hoang2020_Ret df pC pctPlot norm' = heatmap_Hoang2020_Ret df pC pctPlot norm'"
| "call_heatmap Heatmap_Hoang2020_PhotoDev df pC pctPlot norm' =
     heatmap_Hoang2020_PhotoDev df pC pctPlot norm'"
| "call_heatmap Heatmap_Hoang2020_PhotoDev_withcontaminatedlarvalrods df pC pctPlot norm' =
     heatmap_Hoang2020_PhotoDev_withcontaminatedlarvalrods df pC pctPlot norm'"
| "call_heatmap Heatmap_Xu2020_RetDev df pC pctPlot norm' = heatmap_Xu2020_RetDev df pC pctPlot norm'"

section \<open>All plotting functions; what was drawn\<close>

datatype wrapper = Bars bar_wrapper | Heat heat_wrapper

fun call :: "wrapper \<Rightarrow> dataframe \<Rightarrow> string \<Rightarrow> palette option \<Rightarrow> bool \<Rightarrow> bool \<Rightarrow> run" where
  "call (Bars w) df g pC pctPlot norm' = call_bars w df g pC pctPlot"
| "call (Heat w) df g pC pctPlot norm' = call_heatmap w df pC pctPlot norm'"

text \<open>Reading a trace: the first entry of a kind; for the y label the last one, since
  a later \<^verbatim>\<open>set_ylabel\<close> overrides an earlier one.\<close>

fun first_of :: "(draw \<Rightarrow> 'a option) \<Rightarrow> draw list \<Rightarrow> 'a option" where
  "first_of f [] = None"
| "first_of f (d # ds) = (case f d of Some x \<Rightarrow> Some x | None \<Rightarrow> first_of f ds)"

definition last_of :: "(draw \<Rightarrow> 'a option) \<Rightarrow> draw list \<Rightarrow> 'a option" where
  "last_of f ds = first_of f (rev ds)"

definition bar_of :: "draw list \<Rightarrow> (real list \<times> real list \<times> string list) option" where
  "bar_of = first_of (\<lambda>d. case d of Bar n h w cs \<Rightarrow> Some (n, h, cs) | _ \<Rightarrow> None)"

definition xticks_of :: "draw list \<Rightarrow> real list option" where
  "xticks_of = first_of (\<lambda>d. case d of Set_xticks t \<Rightarrow> Some t | _ \<Rightarrow> None)"

definition xticklabels_of :: "draw list \<Rightarrow> string list option" where
  "xticklabels_of = first_of (\<lambda>d. case d of Set_xticklabels t \<Rightarrow> Some t | _ \<Rightarrow> None)"

definition yticklabels_of :: "draw list \<Rightarrow> string list option" where
  "yticklabels_of = first_of (\<lambda>d. case d of Set_yticklabels t \<Rightarrow> Some t | _ \<Rightarrow> None)"

definition ylabel_of :: "draw list \<Rightarrow> string option" where
  "ylabel_of = last_of (\<lambda>d. case d of Set_ylabel t \<Rightarrow> Some t | _ \<Rightarrow> None)"

definition imshow_of :: "draw list \<Rightarrow> num list list option" where
  "imshow_of = first_of (\<lambda>d. case d of Imshow a c \<Rightarrow> Some a | _ \<Rightarrow> None)"

definition cbar_label_of :: "draw list \<Rightarrow> string option" where
  "cbar_label_of = first_of (\<lambda>d. case d of Cbar_set_ylabel t \<Rightarrow> Some t | _ \<Rightarrow> None)"

text \<open>\<^verbatim>\<open>max(row)\<close> of a row of the data block: defined when the row is finite and not empty.\<close>

fun finite_values :: "num list \<Rightarrow> real list option" where
  "finite_values [] = Some []"
| "finite_values (Fin x # xs) = map_option (\<lambda>ys. x # ys) (finite_values xs)"
| "finite_values (_ # xs) = None"

definition row_max :: "num list \<Rightarrow> real option" where
  "row_max xs = (case finite_values xs of
                   None \<Rightarrow> None
                 | Some [] \<Rightarrow> None
                 | Some (y # ys) \<Rightarrow> Some (maximum (y # ys)))"

definition row_maxima :: "run \<Rightarrow> real option list" where
  "row_maxima r = (case imshow_of (fst r) of None \<Rightarrow> [] | Some a \<Rightarrow> map row_max a)"

section \<open>The constants of each function, side by side\<close>

text \<open>
  What the bar functions differ in: positions, slice bounds, default palette and colour
  keys (read off lines 65-83, 107-122, 149-164, 191-203, 227-263, 290-312, 339-363,
  391-493, 521-536, 561-572), and the formatter each one calls.
\<close>

record bar_profile =
  bp_n :: "real list"
  bp_h_start :: nat
  bp_h_end :: nat
  bp_default :: palette
  bp_keys :: "string list"

fun bars_profile :: "bar_wrapper \<Rightarrow> bool \<Rightarrow> bar_profile" where
  "bars_profile PlotBars pctPlot =
     \<lparr>bp_n = arange 1 7 @ shifted 7 (arange 1 6) @ shifted 13 (arange 1 7)
               @ shifted 20 (arange 1 8) @ shifted 28 (arange 1 7),
      bp_h_start = 7, bp_h_end = 37, bp_default = pC_photoreceptors,
      bp_keys = replicate 6 ''r'' @ replicate 5 ''u'' @ replicate 6 ''s'' @ replicate 7 ''m''
                @ replicate 6 ''l''\<rparr>"
| "bars_profile PlotBars_Ogawa2021 pctPlot =
     \<lparr>bp_n = arange 1 9,
      bp_h_start = 2 + (if pctPlot then 9 else 0), bp_h_end = 10 + (if pctPlot then 9 else 0),
      bp_default = pC_photoreceptors,
      bp_keys = [''r'', ''u'', ''s'', ''m'', ''l'', ''m4'', ''onBC'', ''offBC'']\<rparr>"
| "bars_profile PlotBars_Hoang2020 pctPlot =
     \<lparr>bp_n = arange 1 8,
      bp_h_start = 2 + (if pctPlot then 8 else 0), bp_h_end = 9 + (if pctPlot then 8 else 0),
      bp_default = pC_photoreceptors,
      bp_keys = [''r'', ''u'', ''s'', ''m'', ''m'', ''m4'', ''l'']\<rparr>"
| "bars_profile PlotBars_Sun2018 pctPlot =
     \<lparr>bp_n = arange 1 5 @ shifted 5 (arange 1 5),
      bp_h_start = 7, bp_h_end = 16, bp_default = pC_photoreceptors,
      bp_keys = replicate 4 ''r'' @ replicate 4 ''m4''\<rparr>"
| "bars_profile PlotBars_Hoang2020_Ret pctPlot =
     \<lparr>bp_n = arange 1 18,
      bp_h_start = 2 + (if pctPlot then 19 else 0), bp_h_end = 19 + (if pctPlot then 19 else 0),
      bp_default = pC_Hoang2020_Ret_bars, bp_keys = keys_Hoang2020_Ret\<rparr>"
| "bars_profile PlotBars_Hoang2020_PhotoDev pctPlot =
     \<lparr>bp_n = arange 1 8,
      bp_h_start = 2 + (if pctPlot then 8 else 0), bp_h_end = 9 + (if pctPlot then 8 else 0),
      bp_default = pC_Hoang2020_PhotoDev,
      bp_keys = [''RPC'', ''PRP'', ''Cle'', ''Clm'', ''Cll'', ''C'', ''R'']\<rparr>"
| "bars_profile PlotBars_Hoang2020_PhotoDev_withcontaminatedlarvalrods pctPlot =
     \<lparr>bp_n = arange 1 9,
      bp_h_start = 2 + (if pctPlot then 9 else 0), bp_h_end = 10 + (if pctPlot then 9 else 0),
      bp_default = pC_Hoang2020_PhotoDev_withcontaminatedlarvalrods,
      bp_keys = [''RPC'', ''PRP'', ''Cle'', ''Clm'', ''Cll'', ''C'', ''Rll'', ''R'']\<rparr>"
| "bars_profile PlotBars_Xu2020_RetDev pctPlot =
     \<lparr>bp_n = arange 1 81,
      bp_h_start = 2 + (if pctPlot then 82 else 0), bp_h_end = 82 + (if pctPlot then 82 else 0),
      bp_default = pC_Xu2020_RetDev, bp_keys = keys_Xu2020_RetDev\<rparr>"
| "bars_profile PlotBars_Nerli2022 pctPlot =
     \<lparr>bp_n = arange 0 5 @ shifted 4.5 (arange 1 6) @ shifted 10 (arange 1 6)
               @ shifted 15.5 (arange 1 6),
      bp_h_start = 1, bp_h_end = 21, bp_default = pC_Nerli2022,
      bp_keys = replicate 5 ''RPC'' @ replicate 5 ''PR'' @ replicate 5 ''HC_AC''
                @ replicate 5 ''RGC''\<rparr>"
| "bars_profile PlotBars_Yoshimatsu2020 pctPlot =
     \<lparr>bp_n = arange 1 5 @ shifted 5 (arange 1 5),
      bp_h_start = 1, bp_h_end = 9, bp_default = pC_Yoshimatsu2020,
      bp_keys = replicate 4 ''u2'' @ replicate 4 ''u''\<rparr>"

fun bars_format :: "bar_wrapper \<Rightarrow> string \<Rightarrow> bool \<Rightarrow> draw list" where
  "bars_format PlotBars g pctPlot = formatBarPlot g"
| "bars_format PlotBars_Ogawa2021 g pctPlot = formatBarPlot_Ogawa2021 g pctPlot"
| "bars_format PlotBars_Hoang2020 g pctPlot = formatBarPlot_Hoang2020 g pctPlot"
| "bars_format PlotBars_Sun2018 g pctPlot = formatBarPlot_Sun2018 g"
| "bars_format PlotBars_Hoang2020_Ret g pctPlot = formatBarPlot_Hoang2020_Ret g pctPlot"
| "bars_format PlotBars_Hoang2020_PhotoDev g pctPlot = formatBarPlot_Hoang2020_PhotoDev g pctPlot"
| "bars_format PlotBars_Hoang2020_PhotoDev_withcontaminatedlarvalrods g pctPlot =
     formatBarPlot_Hoang2020_PhotoDev g pctPlot"
| "bars_format PlotBars_Xu2020_RetDev g pctPlot = formatBarPlot_Xu2020_RetDev g pctPlot"
| "bars_format PlotBars_Nerli2022 g pctPlot = formatBarPlot_Nerli2022 g"
| "bars_format PlotBars_Yoshimatsu2020 g pctPlot = formatBarPlot_Yoshimatsu2020 g"

text \<open>
  What the heatmap functions differ in: slice bounds, group sizes, default palette and
  colour keys (lines 675-684, 705-717, 736-748, 766-775, 793-801, 819-827, 846-861,
  882-906, 925-951, 970-1083).
\<close>

record heat_profile =
  hp_h_start :: nat
  hp_h_end :: nat
  hp_groupsN :: "nat list"
  hp_default :: palette
  hp_keys :: "string list"

fun heats_profile :: "heat_wrapper \<Rightarrow> bool \<Rightarrow> heat_profile" where
  "heats_profile Heatmap pctPlot =
     \<lparr>hp_h_start = 7, hp_h_end = 37, hp_groupsN = [6, 5, 6, 7, 6],
      hp_default = pC_photoreceptors, hp_keys = [''r'', ''u'', ''s'', ''m'', ''l'']\<rparr>"
| "heats_profile Heatmap_Ogawa2021 pctPlot =
     \<lparr>hp_h_start = 2 + (if pctPlot then 9 else 0), hp_h_end = 10 + (if pctPlot then 9 else 0),
      hp_groupsN = replicate 8 1, hp_default = pC_photoreceptors,
      hp_keys = [''r'', ''u'', ''s'', ''m'', ''l'', ''m4'', ''onBC'', ''offBC'']\<rparr>"
| "heats_profile Heatmap_Hoang2020 pctPlot =
     \<lparr>hp_h_start = 2 + (if pctPlot then 8 else 0), hp_h_end = 9 + (if pctPlot then 8 else 0),
      hp_groupsN = replicate 7 1, hp_default = pC_photoreceptors,
      hp_keys = [''r'', ''u'', ''s'', ''m'', ''m'', ''m4'', ''l'']\<rparr>"
| "heats_profile Heatmap_Sun2018 pctPlot =
     \<lparr>hp_h_start = 7, hp_h_end = 16, hp_groupsN = [4, 4],
      hp_default = pC_photoreceptors, hp_keys = [''r'', ''m4'']\<rparr>"
| "heats_profile Heatmap_Nerli2022 pctPlot =
     \<lparr>hp_h_start = 1, hp_h_end = 21, hp_groupsN = [5, 5, 5, 5],
      hp_default = pC_Nerli2022, hp_keys = [''RPC'', ''PR'', ''HC_AC'', ''RGC'']\<rparr>"
| "heats_profile Heatmap_Yoshimatsu2020 pctPlot =
     \<lparr>hp_h_start = 1, hp_h_end = 9, hp_groupsN = [4, 4],
      hp_default = pC_Yoshimatsu2020, hp_keys = [''u2'', ''u'']\<rparr>"
| "heats_profile Heatmap_Hoang2020_Ret pctPlot =
     \<lparr>hp_h_start = 2 + (if pctPlot then 19 else 0), hp_h_end = 19 + (if pctPlot then 19 else 0),
      hp_groupsN = replicate 17 1, hp_default = pC_Hoang2020_Ret_heatmap,
      hp_keys = keys_Hoang2020_Ret\<rparr>"
| "heats_profile Heatmap_Hoang2020_PhotoDev pctPlot =
     \<lparr>hp_h_start = 2 + (if pctPlot then 8 else 0), hp_h_end = 9 + (if pctPlot then 8 else 0),
      hp_groupsN = replicate 7 1, hp_default = pC_Hoang2020_PhotoDev,
      hp_keys = [''RPC'', ''PRP'', ''Cle'', ''Clm'', ''Cll'', ''C'', ''R'']\<rparr>"
| "heats_profile Heatmap_Hoang2020_PhotoDev_withcontaminatedlarvalrods pctPlot =
     \<lparr>hp_h_start = 2 + (if pctPlot then 9 else 0), hp_h_end = 10 + (if pctPlot then 9 else 0),
      hp_groupsN = replicate 8 1,
      hp_default = pC_Hoang2020_PhotoDev_withcontaminatedlarvalrods,
      hp_keys = [''RPC'', ''PRP'', ''Cle'', ''Clm'', ''Cll'', ''C'', ''Rll'', ''R'']\<rparr>"
| "heats_profile Heatmap_Xu2020_RetDev pctPlot =
     \<lparr>hp_h_start = 2 + (if pctPlot then 81 else 0), hp_h_end = 82 + (if pctPlot then 81 else 0),
      hp_groupsN = replicate 80 1, hp_default = pC_Xu2020_RetDev,
      hp_keys = keys_Xu2020_RetDev\<rparr>"

fun color_keys :: "wrapper \<Rightarrow> string list" where
  "color_keys (Bars w) = bp_keys (bars_profile w False)"
| "color_keys (Heat w) = hp_keys (heats_profile w False)"

text \<open>The data block a heatmap function passes on, given its slice bounds.\<close>

definition block_of :: "dataframe \<Rightarrow> nat \<Rightarrow> nat \<Rightarrow> bool \<Rightarrow> ndarray" where
  "block_of df a b norm' = (if norm' then apply_norm (iloc_cols df a b) else values_of (iloc_cols df a b))"

section \<open>Tables used as inputs\<close>

text \<open>One gene, every cell equal to \<open>v\<close>, \<open>k\<close> columns wide.\<close>

definition one_row :: "nat \<Rightarrow> real \<Rightarrow> dataframe" where
  "one_row k v = \<lparr>symbol = [''gene''], ncolumns = k, cells = [replicate k v]\<rparr>"

text \<open>No gene found: \<open>k\<close> columns, no row.\<close>

definition no_rows :: "nat \<Rightarrow> dataframe" where
  "no_rows k = \<lparr>symbol = [], ncolumns = k, cells = []\<rparr>"

text \<open>One gene over 9 columns (two leading columns, then seven expression values), all of
  them negative: six times \<open>-2\<close>, then \<open>-1\<close>.\<close>

definition negative_row :: dataframe where
  "negative_row = \<lparr>symbol = [''gene''], ncolumns = 9,
                    cells = [[0, 0, - 2, - 2, - 2, - 2, - 2, - 2, - 1]]\<rparr>"

text \<open>One gene over 19 columns holding \<open>0, 1, ..., 18\<close>.\<close>

definition counting_row :: dataframe where
  "counting_row = \<lparr>symbol = [''gene''], ncolumns = 19, cells = [map real [0..<19]]\<rparr>"

section \<open>Basic facts about slices, palettes and traces\<close>

lemma length_slice: "length (slice a b xs) = min (b - a) (length xs - a)"
  by (simp add: slice_def)

lemma slice_nth:
  assumes "b \<le> length xs"
  shows "slice a b xs = map (\<lambda>i. xs ! i) [a..<b]"
proof (rule nth_equalityI)
  show "length (slice a b xs) = length (map (\<lambda>i. xs ! i) [a..<b])"
    using assms by (simp add: length_slice)
next
  fix i assume "i < length (slice a b xs)"
  then have "i < b - a" by (simp add: length_slice)
  then show "slice a b xs ! i = map (\<lambda>i. xs ! i) [a..<b] ! i"
    using assms by (simp add: slice_def)
qed

lemma if_not_pC_None: "if_not_pC None d = d"
  by (simp add: if_not_pC_def not_pC_def)

lemma if_not_pC_empty: "if_not_pC (Some []) d = d"
  by (simp add: if_not_pC_def not_pC_def)

lemma if_not_pC_Some: "p \<noteq> [] \<Longrightarrow> if_not_pC (Some p) d = p"
  by (simp add: if_not_pC_def not_pC_def)

lemma getitem_mem: "k \<in> fst ` set pC \<Longrightarrow> \<exists>c. getitem pC k = Inr c"
  by (auto simp: getitem_def map_of_eq_None_iff split: option.splits)

lemma getitems_total:
  "set ks \<subseteq> fst ` set pC \<Longrightarrow> \<exists>cs. getitems pC ks = Inr cs \<and> length cs = length ks"
proof (induction ks)
  case Nil
  then show ?case by simp
next
  case (Cons k ks)
  then obtain c cs where "getitem pC k = Inr c" "getitems pC ks = Inr cs" "length cs = length ks"
    using getitem_mem[of k pC] by auto
  then show ?case by simp
qed

lemma getitems_Inr_nth:
  "getitems pC ks = Inr cs \<Longrightarrow> length cs = length ks \<and> (\<forall>i<length ks. map_of pC (ks ! i) = Some (cs ! i))"
proof (induction ks arbitrary: cs)
  case Nil
  then show ?case by simp
next
  case (Cons k ks)
  from Cons.prems obtain c cs' where c: "getitem pC k = Inr c" and cs': "getitems pC ks = Inr cs'"
    and eq: "cs = c # cs'"
    by (auto split: sum.splits)
  from c have "map_of pC k = Some c" by (auto simp: getitem_def split: option.splits)
  moreover note Cons.IH[OF cs']
  ultimately show ?case using eq by (auto simp: nth_Cons split: nat.splits)
qed

lemma getitems_only_KeyError: "getitems pC ks = Inl e \<Longrightarrow> \<exists>k. e = KeyError k"
  by (induction ks arbitrary: e) (auto simp: getitem_def split: sum.splits option.splits)

lemma getitems_missing:
  "k \<in> set ks \<Longrightarrow> map_of pC k = None \<Longrightarrow> \<exists>k'. getitems pC ks = Inl (KeyError k')"
proof (induction ks)
  case Nil
  then show ?case by simp
next
  case (Cons a ks)
  show ?case
  proof (cases "map_of pC a")
    case None
    then show ?thesis by (simp add: getitem_def)
  next
    case (Some c)
    with Cons.prems have "k \<in> set ks" by auto
    from Cons.IH[OF this Cons.prems(2)] Some show ?thesis by (auto simp: getitem_def)
  qed
qed

lemma keys_Xu_fst: "map fst pC_Xu2020_RetDev = keys_Xu2020_RetDev"
  by (simp add: pC_Xu2020_RetDev_def keys_Xu2020_RetDev_def)

lemma keys_Hoang_Ret_bars_fst: "map fst pC_Hoang2020_Ret_bars = keys_Hoang2020_Ret"
  by (simp add: pC_Hoang2020_Ret_bars_def keys_Hoang2020_Ret_def)

lemma keys_Hoang_Ret_heatmap_fst: "map fst pC_Hoang2020_Ret_heatmap = keys_Hoang2020_Ret"
  by (simp add: pC_Hoang2020_Ret_heatmap_def keys_Hoang2020_Ret_def)

lemma bars_default_covers: "set (bp_keys (bars_profile w pct)) \<subseteq> fst ` set (bp_default (bars_profile w pct))"
proof (cases w)
  case PlotBars_Xu2020_RetDev
  then show ?thesis by (simp add: keys_Xu_fst[symmetric])
next
  case PlotBars_Hoang2020_Ret
  then show ?thesis by (simp add: keys_Hoang_Ret_bars_fst[symmetric])
qed (simp_all add: pC_photoreceptors_def pC_Hoang2020_PhotoDev_def
      pC_Hoang2020_PhotoDev_withcontaminatedlarvalrods_def pC_Nerli2022_def pC_Yoshimatsu2020_def)

lemma heat_default_covers: "set (hp_keys (heats_profile w pct)) \<subseteq> fst ` set (hp_default (heats_profile w pct))"
proof (cases w)
  case Heatmap_Xu2020_RetDev
  then show ?thesis by (simp add: keys_Xu_fst[symmetric])
next
  case Heatmap_Hoang2020_Ret
  then show ?thesis by (simp add: keys_Hoang_Ret_heatmap_fst[symmetric])
qed (simp_all add: pC_photoreceptors_def pC_Hoang2020_PhotoDev_def
      pC_Hoang2020_PhotoDev_withcontaminatedlarvalrods_def pC_Nerli2022_def pC_Yoshimatsu2020_def)

section \<open>Each function against its constants\<close>

lemmas bar_defs = plotBars_def plotBars_Ogawa2021_def plotBars_Hoang2020_def plotBars_Sun2018_def
  plotBars_Hoang2020_Ret_def plotBars_Hoang2020_PhotoDev_def
  plotBars_Hoang2020_PhotoDev_withcontaminatedlarvalrods_def plotBars_Xu2020_RetDev_def
  plotBars_Nerli2022_def plotBars_Yoshimatsu2020_def

lemmas heat_args_defs = heatmap_args_def heatmap_Ogawa2021_args_def heatmap_Hoang2020_args_def
  heatmap_Sun2018_args_def heatmap_Nerli2022_args_def heatmap_Yoshimatsu2020_args_def
  heatmap_Hoang2020_Ret_args_def heatmap_Hoang2020_PhotoDev_args_def
  heatmap_Hoang2020_PhotoDev_withcontaminatedlarvalrods_args_def heatmap_Xu2020_RetDev_args_def

lemmas heat_defs = heatmap_def heatmap_Ogawa2021_def heatmap_Hoang2020_def heatmap_Sun2018_def
  heatmap_Nerli2022_def heatmap_Yoshimatsu2020_def heatmap_Hoang2020_Ret_def
  heatmap_Hoang2020_PhotoDev_def heatmap_Hoang2020_PhotoDev_withcontaminatedlarvalrods_def
  heatmap_Xu2020_RetDev_def

lemma call_bars_profile:
  "call_bars w df g pC pct =
     bars_then (bp_n (bars_profile w pct))
       (iloc_row0 df (bp_h_start (bars_profile w pct)) (bp_h_end (bars_profile w pct)))
       (getitems (if_not_pC pC (bp_default (bars_profile w pct))) (bp_keys (bars_profile w pct)))
       (bars_format w g pct)"
  by (cases w) (simp_all add: bar_defs Let_def eval_nat_numeral)

lemma call_heatmap_args: "call_heatmap w df pC pct nrm = call_heatmap_general (heat_args w df pC pct nrm)"
  by (cases w) (simp_all add: heat_defs)

lemma heat_args_Inl:
  "getitems (if_not_pC pC (hp_default (heats_profile w pct))) (hp_keys (heats_profile w pct)) = Inl e
   \<Longrightarrow> heat_args w df pC pct nrm = Inl e"
  by (cases w) (simp_all add: heat_args_defs Let_def with_colors_def)

lemma heat_args_Inr:
  "getitems (if_not_pC pC (hp_default (heats_profile w pct))) (hp_keys (heats_profile w pct)) = Inr gc
   \<Longrightarrow> \<exists>a. heat_args w df pC pct nrm = Inr a
        \<and> hm_data a = block_of df (hp_h_start (heats_profile w pct)) (hp_h_end (heats_profile w pct)) nrm
        \<and> hm_row_labels a = symbol df
        \<and> hm_groupsN a = hp_groupsN (heats_profile w pct)
        \<and> hm_groupsColors a = gc
        \<and> length (hm_groupsLabels a) = length (hp_keys (heats_profile w pct))"
  by (cases w)
     (simp_all add: heat_args_defs Let_def with_colors_def block_of_def eval_nat_numeral
        keys_Xu2020_RetDev_def keys_Hoang2020_Ret_def)

section \<open>What \<^verbatim>\<open>heatmap_general\<close> draws\<close>

lemma fst_then_draw: "fst (then_draw ds r) = ds @ fst r"
  by (simp add: then_draw_def)

lemma snd_then_draw: "snd (then_draw ds r) = snd r"
  by (simp add: then_draw_def)

lemma heatmap_general_imshow:
  "imshow_of (fst (heatmap_general a)) =
     Some (if shape0 (hm_data a) = 0 then replicate 2 (replicate (shape1 (hm_data a)) (Fin 1))
           else rows (hm_data a))"
  by (simp add: heatmap_general_def imshow_of_def fst_then_draw ones_def)

lemma heatmap_general_cbar_label: "cbar_label_of (fst (heatmap_general a)) = Some (hm_cbarlabel a)"
  by (simp add: heatmap_general_def cbar_label_of_def fst_then_draw split: prod.splits)

lemma heatmap_general_yticklabels:
  "yticklabels_of (fst (heatmap_general a)) =
     Some (if shape0 (hm_data a) = 0 then [''not found'', ''not found''] else hm_row_labels a)"
  by (simp add: heatmap_general_def yticklabels_of_def fst_then_draw)

lemma group_loop_ok:
  "\<forall>i\<in>set is. i < length gColors \<and> i < length gLabels \<Longrightarrow>
   snd (group_loop n0 gN gColors gLabels rot is) = None"
  by (induction "is") (simp_all add: done_ok_def snd_then_draw Let_def)

lemma heatmap_general_ok:
  "length (hm_groupsN a) \<le> length (hm_groupsColors a) \<Longrightarrow>
   length (hm_groupsN a) \<le> length (hm_groupsLabels a) \<Longrightarrow>
   snd (heatmap_general a) = None"
  by (simp add: heatmap_general_def snd_then_draw group_loop_ok split: prod.splits)

section \<open>Group sizes against the sliced columns\<close>

text \<open>
  Claim C1. The group sizes of a dataset function should add up to the number of columns it
  slices out of the table. \<^verbatim>\<open>heatmap_Sun2018\<close> slices \<^verbatim>\<open>iloc[0:,7:16]\<close> and passes
  \<^verbatim>\<open>groupsN = [4,4]\<close>: on a table sixteen columns wide the group sizes add up to 8 while the
  data block is 9 columns wide, every row of it holding 9 values.
\<close>

theorem heatmap_Sun2018_groups_short_of_slice:
  "map_sum id (\<lambda>a. (sum_list (hm_groupsN a), shape1 (hm_data a), map length (rows (hm_data a))))
     (heatmap_Sun2018_args (one_row 16 1) None False) = Inr (8, 9, [9])"
  by (simp add: heatmap_Sun2018_args_def with_colors_def if_not_pC_None pC_photoreceptors_def
        getitem_def values_of_def iloc_cols_def one_row_def length_slice)

section \<open>Positions, values and colours of the bar call\<close>

text \<open>
  Claim C3. On a row wide enough for the slice, values, positions and colours should have one
  length, so that the bar call cannot fail on shapes. \<^verbatim>\<open>plotBars_Sun2018\<close> slices
  \<^verbatim>\<open>iloc[0,7:16]\<close>, nine values, against eight positions and eight colours: on a row of
  sixteen columns the bar call raises the shape mismatch and nothing is drawn.
\<close>

theorem plotBars_Sun2018_shape_mismatch:
  "plotBars_Sun2018 (one_row 16 1) ''gene'' None = ([], Some ValueError) \<and>
   map_sum id length (iloc_row0 (one_row 16 1) 7 16) = Inr 9 \<and>
   length (bp_n (bars_profile PlotBars_Sun2018 False)) = 8 \<and>
   length (bp_keys (bars_profile PlotBars_Sun2018 False)) = 8"
  by (simp add: plotBars_Sun2018_def bars_then_def iloc_row0_def one_row_def length_slice
        if_not_pC_None pC_photoreceptors_def getitem_def ax_bar_def raise_def arange_def shifted_def)

section \<open>The colorbar label\<close>

text \<open>
  Claim C4. With \<^verbatim>\<open>norm=True\<close> the colorbar label should be the dataset's unit label with
  \<^verbatim>\<open>norm.\<close> in front. \<^verbatim>\<open>heatmap_Nerli2022\<close> labels the raw data \<^verbatim>\<open>Counts (norm.)\<close> and the
  normalised data \<^verbatim>\<open>norm. FPKM\<close>, whatever the table.
\<close>

theorem heatmap_Nerli2022_norm_label:
  "cbar_label_of (fst (heatmap_Nerli2022 df None False)) = Some ''Counts (norm.)'' \<and>
   cbar_label_of (fst (heatmap_Nerli2022 df None True)) = Some ''norm. FPKM''"
  by (simp add: heatmap_Nerli2022_def heatmap_Nerli2022_args_def call_heatmap_general_def
        with_colors_def if_not_pC_None pC_Nerli2022_def getitem_def heatmap_general_cbar_label)

section \<open>The empty palette\<close>

lemma bars_then_no_KeyError:
  "barColors = Inr cs \<Longrightarrow> snd (bars_then n (iloc_row0 df a b) barColors fmt) \<noteq> Some (KeyError k)"
  by (auto simp: bars_then_def raise_def then_draw_def done_ok_def ax_bar_def iloc_row0_def
      split: sum.splits list.splits)

lemma call_empty_palette: "call w df g (Some []) pct nrm = call w df g None pct nrm"
proof (cases w)
  case (Bars b)
  then show ?thesis by (simp add: call_bars_profile if_not_pC_None if_not_pC_empty)
next
  case (Heat h)
  show ?thesis
  proof (cases "getitems (hp_default (heats_profile h pct)) (hp_keys (heats_profile h pct))")
    case (Inl e)
    then show ?thesis using Heat
      by (simp add: call_heatmap_args heat_args_Inl if_not_pC_None if_not_pC_empty)
  next
    case (Inr gc)
    then show ?thesis using Heat
      by (cases h) (simp_all add: heat_defs heat_args_defs if_not_pC_None if_not_pC_empty)
  qed
qed

lemma call_default_no_KeyError: "snd (call w df g None pct nrm) \<noteq> Some (KeyError k)"
proof (cases w)
  case (Bars b)
  obtain cs where "getitems (bp_default (bars_profile b pct)) (bp_keys (bars_profile b pct)) = Inr cs"
    using getitems_total[OF bars_default_covers] by blast
  then show ?thesis using Bars
    by (simp add: call_bars_profile if_not_pC_None bars_then_no_KeyError)
next
  case (Heat h)
  obtain gc where gc: "getitems (hp_default (heats_profile h pct)) (hp_keys (heats_profile h pct)) = Inr gc"
    and len: "length gc = length (hp_keys (heats_profile h pct))"
    using getitems_total[OF heat_default_covers] by blast
  have n: "length (hp_groupsN (heats_profile h pct)) = length (hp_keys (heats_profile h pct))"
    by (cases h) (simp_all add: keys_Xu2020_RetDev_def keys_Hoang2020_Ret_def)
  from heat_args_Inr[of None h pct gc df nrm] gc obtain a where
    a: "heat_args h df None pct nrm = Inr a" "hm_groupsN a = hp_groupsN (heats_profile h pct)"
       "hm_groupsColors a = gc" "length (hm_groupsLabels a) = length (hp_keys (heats_profile h pct))"
    by (auto simp: if_not_pC_None)
  then have "snd (heatmap_general a) = None"
    using len n by (intro heatmap_general_ok) simp_all
  then show ?thesis using Heat a by (simp add: call_heatmap_args call_heatmap_general_def)
qed

text \<open>
  Claim C10. Every plotting function tests \<^verbatim>\<open>not pC\<close>, so the empty dictionary is replaced
  by the built-in palette exactly as \<^verbatim>\<open>None\<close> is: the two calls return the same trace and the
  same outcome, and no missing-colour-key error is raised, since every built-in palette
  holds every key its function looks up.
\<close>

theorem empty_palette_is_default:
  "call w df g (Some []) pct nrm = call w df g None pct nrm \<and>
   (\<forall>k. snd (call w df g (Some []) pct nrm) \<noteq> Some (KeyError k))"
  using call_empty_palette[of w df g pct nrm] call_default_no_KeyError[of w df g pct nrm]
  by simp

section \<open>A palette without a key the function looks up\<close>

lemma bp_keys_pct: "bp_keys (bars_profile w pct) = bp_keys (bars_profile w False)"
  by (cases w) simp_all

lemma hp_keys_pct: "hp_keys (heats_profile w pct) = hp_keys (heats_profile w False)"
  by (cases w) simp_all

lemma hp_groupsN_length:
  "length (hp_groupsN (heats_profile w pct)) = length (hp_keys (heats_profile w pct))"
  by (cases w) (simp_all add: keys_Xu2020_RetDev_def keys_Hoang2020_Ret_def)

text \<open>
  Claim C9. For every function whose colour list reads \<^verbatim>\<open>pC['m4']\<close> (the bar and heatmap
  functions of Ogawa2021, Hoang2020 and Sun2018) and every non-empty palette without that
  key, the call raises a \<^verbatim>\<open>KeyError\<close> while the colour list is built, with nothing drawn. A
  bar function reads row 0 of the table first, so its table must have a row.
\<close>

theorem missing_m4_raises_before_drawing:
  assumes "''m4'' \<in> set (color_keys w)" and "p \<noteq> []" and "map_of p ''m4'' = None"
    and "cells df \<noteq> [] \<or> (\<exists>h. w = Heat h)"
  shows "\<exists>k. call w df g (Some p) pct nrm = ([], Some (KeyError k))"
proof (cases w)
  case (Bars b)
  with assms(4) obtain r rs where r: "cells df = r # rs" by (cases "cells df") auto
  from assms(1) Bars have "''m4'' \<in> set (bp_keys (bars_profile b pct))"
    by (simp add: bp_keys_pct[of b pct])
  from getitems_missing[OF this assms(3)] obtain k where
    "getitems p (bp_keys (bars_profile b pct)) = Inl (KeyError k)" by blast
  then show ?thesis using Bars r assms(2)
    by (simp add: call_bars_profile if_not_pC_Some bars_then_def iloc_row0_def raise_def)
next
  case (Heat h)
  from assms(1) Heat have "''m4'' \<in> set (hp_keys (heats_profile h pct))"
    by (simp add: hp_keys_pct[of h pct])
  from getitems_missing[OF this assms(3)] obtain k where
    "getitems p (hp_keys (heats_profile h pct)) = Inl (KeyError k)" by blast
  then have "heat_args h df (Some p) pct nrm = Inl (KeyError k)"
    using assms(2) by (intro heat_args_Inl) (simp add: if_not_pC_Some)
  then show ?thesis using Heat
    by (simp add: call_heatmap_args call_heatmap_general_def raise_def)
qed

theorem missing_m4_raises_before_drawing_witness:
  "''m4'' \<in> set (color_keys (Bars PlotBars_Ogawa2021)) \<and>
   [(''r'', ''#747474'')] \<noteq> [] \<and> map_of [(''r'', ''#747474'')] ''m4'' = None \<and>
   cells (one_row 19 1) \<noteq> [] \<and>
   (\<exists>k. call (Bars PlotBars_Ogawa2021) (one_row 19 1) ''gene'' (Some [(''r'', ''#747474'')]) False False
        = ([], Some (KeyError k)))"
proof -
  have h1: "''m4'' \<in> set (color_keys (Bars PlotBars_Ogawa2021))" by simp
  have h2: "[(''r'', ''#747474'')] \<noteq> ([] :: palette)" by simp
  have h3: "map_of [(''r'', ''#747474'')] ''m4'' = (None :: string option)" by simp
  have h4: "cells (one_row 19 1) \<noteq> []" by (simp add: one_row_def)
  from h4 have h4': "cells (one_row 19 1) \<noteq> [] \<or> (\<exists>h. Bars PlotBars_Ogawa2021 = Heat h)" by simp
  show ?thesis
    using h1 h2 h3 h4 missing_m4_raises_before_drawing[OF h1 h2 h3 h4', of "''gene''" False False]
    by blast
qed

section \<open>A table without rows\<close>

lemma block_of_empty:
  "cells df = [] \<Longrightarrow> b \<le> ncolumns df \<Longrightarrow>
   shape0 (block_of df a b nrm) = 0 \<and> shape1 (block_of df a b nrm) = b - a"
  by (simp add: block_of_def shape0_def apply_norm_def values_of_def iloc_cols_def)

text \<open>
  Claim C6. A heatmap function called on a table without rows, wide enough for the slice,
  either raises the missing-colour-key error of a palette that lacks a key (before
  \<^verbatim>\<open>heatmap_general\<close> is reached), or it draws: the image is the 2 by N block of ones, N the
  width of the function's slice, both row labels are \<^verbatim>\<open>not found\<close>, and the call returns
  without error.
\<close>

theorem heatmap_empty_placeholder:
  assumes "cells df = []" and "hp_h_end (heats_profile w pct) \<le> ncolumns df"
  shows "(\<exists>k. call_heatmap w df pC pct nrm = ([], Some (KeyError k))) \<or>
         (snd (call_heatmap w df pC pct nrm) = None \<and>
          imshow_of (fst (call_heatmap w df pC pct nrm)) =
            Some (replicate 2 (replicate (hp_h_end (heats_profile w pct) - hp_h_start (heats_profile w pct)) (Fin 1))) \<and>
          yticklabels_of (fst (call_heatmap w df pC pct nrm)) = Some [''not found'', ''not found''])"
proof (cases "getitems (if_not_pC pC (hp_default (heats_profile w pct))) (hp_keys (heats_profile w pct))")
  case (Inl e)
  then obtain k where "e = KeyError k" using getitems_only_KeyError by blast
  with Inl have "heat_args w df pC pct nrm = Inl (KeyError k)" by (simp add: heat_args_Inl)
  then show ?thesis by (simp add: call_heatmap_args call_heatmap_general_def raise_def)
next
  case (Inr gc)
  from getitems_Inr_nth[OF Inr] have len: "length gc = length (hp_keys (heats_profile w pct))" by simp
  from heat_args_Inr[OF Inr, of df nrm] obtain a where
    a: "heat_args w df pC pct nrm = Inr a"
       "hm_data a = block_of df (hp_h_start (heats_profile w pct)) (hp_h_end (heats_profile w pct)) nrm"
       "hm_groupsN a = hp_groupsN (heats_profile w pct)"
       "hm_groupsColors a = gc" "length (hm_groupsLabels a) = length (hp_keys (heats_profile w pct))"
    by blast
  have ok: "snd (heatmap_general a) = None"
    using a len hp_groupsN_length[of w pct] by (intro heatmap_general_ok) simp_all
  have sh: "shape0 (hm_data a) = 0"
       "shape1 (hm_data a) = hp_h_end (heats_profile w pct) - hp_h_start (heats_profile w pct)"
    using block_of_empty[OF assms] a(2) by simp_all
  show ?thesis
    using a(1) ok sh
    by (simp add: call_heatmap_args call_heatmap_general_def heatmap_general_imshow
          heatmap_general_yticklabels)
qed

theorem heatmap_empty_placeholder_witness:
  "cells (no_rows 37) = [] \<and> hp_h_end (heats_profile Heatmap False) \<le> ncolumns (no_rows 37) \<and>
   snd (call_heatmap Heatmap (no_rows 37) None False False) = None \<and>
   imshow_of (fst (call_heatmap Heatmap (no_rows 37) None False False)) =
     Some (replicate 2 (replicate 30 (Fin 1))) \<and>
   yticklabels_of (fst (call_heatmap Heatmap (no_rows 37) None False False)) =
     Some [''not found'', ''not found'']"
proof -
  have h1: "cells (no_rows 37) = []" by (simp add: no_rows_def)
  have h2: "hp_h_end (heats_profile Heatmap False) \<le> ncolumns (no_rows 37)" by (simp add: no_rows_def)
  have nk: "call_heatmap Heatmap (no_rows 37) None False False \<noteq> ([], Some (KeyError k))" for k
  proof
    assume "call_heatmap Heatmap (no_rows 37) None False False = ([], Some (KeyError k))"
    then have "snd (call (Heat Heatmap) (no_rows 37) ''gene'' None False False) = Some (KeyError k)"
      by simp
    then show False using call_default_no_KeyError by blast
  qed
  have w: "hp_h_end (heats_profile Heatmap False) - hp_h_start (heats_profile Heatmap False) = 30"
    by simp
  from heatmap_empty_placeholder[OF h1 h2, of None False] nk
  have "snd (call_heatmap Heatmap (no_rows 37) None False False) = None \<and>
        imshow_of (fst (call_heatmap Heatmap (no_rows 37) None False False)) =
          Some (replicate 2 (replicate (hp_h_end (heats_profile Heatmap False) - hp_h_start (heats_profile Heatmap False)) (Fin 1))) \<and>
        yticklabels_of (fst (call_heatmap Heatmap (no_rows 37) None False False)) =
          Some [''not found'', ''not found'']"
    by blast
  then show ?thesis using h1 h2 unfolding w by blast
qed

section \<open>The bar plot of the Rods/UV/S/M/L table\<close>

lemma iloc_row0_Cons: "cells df = r # rs \<Longrightarrow> iloc_row0 df a b = Inr (slice a b r)"
  by (simp add: iloc_row0_def)

lemma bars_then_drawn:
  "length h = length n \<Longrightarrow>
   bars_then n (Inr h) (Inr cs) fmt = (Bar n h 0.8 cs # fmt, None)"
  by (simp add: bars_then_def ax_bar_def then_draw_def done_ok_def)

lemma plotBars_keys_cover:
  assumes "{''r'', ''u'', ''s'', ''m'', ''l''} \<subseteq> fst ` set P"
  shows "\<exists>cs. getitems P
            [''r'', ''r'', ''r'', ''r'', ''r'', ''r'',
             ''u'', ''u'', ''u'', ''u'', ''u'',
             ''s'', ''s'', ''s'', ''s'', ''s'', ''s'',
             ''m'', ''m'', ''m'', ''m'', ''m'', ''m'', ''m'',
             ''l'', ''l'', ''l'', ''l'', ''l'', ''l''] = Inr cs \<and> length cs = 30 \<and>
            map_of P ''u'' = Some (cs ! 6)"
proof -
  let ?ks = "[''r'', ''r'', ''r'', ''r'', ''r'', ''r'',
             ''u'', ''u'', ''u'', ''u'', ''u'',
             ''s'', ''s'', ''s'', ''s'', ''s'', ''s'',
             ''m'', ''m'', ''m'', ''m'', ''m'', ''m'', ''m'',
             ''l'', ''l'', ''l'', ''l'', ''l'', ''l'']"
  have "set ?ks \<subseteq> fst ` set P" using assms by auto
  from getitems_total[OF this] obtain cs where cs: "getitems P ?ks = Inr cs" "length cs = length ?ks"
    by blast
  from getitems_Inr_nth[OF cs(1)] have "\<forall>i<length ?ks. map_of P (?ks ! i) = Some (cs ! i)" by blast
  then have "6 < length ?ks \<longrightarrow> map_of P (?ks ! 6) = Some (cs ! 6)" by blast
  then have "map_of P ''u'' = Some (cs ! 6)" by simp
  with cs show ?thesis by simp
qed

text \<open>
  Claim C7. \<^verbatim>\<open>plotBars\<close> on a table whose first row has at least 37 columns, with a
  palette (the built-in one when \<^verbatim>\<open>pC\<close> is falsy) that holds the keys r, u, s, m and l:
  the call returns normally, the x ticks are 3.5, 10, 16.5, 24, 31.5 with the labels Rods, UV,
  S, M, L, the bar call gets the thirty values of columns 7 to 36 at thirty positions with
  thirty colours, and the colour at index 6, the first UV column, is the palette's entry
  for u.
\<close>

theorem plotBars_ticks_and_UV_color:
  assumes "cells df = r # rs" and "37 \<le> length r"
    and "{''r'', ''u'', ''s'', ''m'', ''l''} \<subseteq> fst ` set (if_not_pC pC pC_photoreceptors)"
  shows "snd (plotBars df g pC) = None \<and>
         xticks_of (fst (plotBars df g pC)) = Some [3.5, 10, 16.5, 24, 31.5] \<and>
         xticklabels_of (fst (plotBars df g pC)) = Some [''Rods'', ''UV'', ''S'', ''M'', ''L''] \<and>
         (\<exists>n cs. bar_of (fst (plotBars df g pC)) = Some (n, slice 7 37 r, cs) \<and>
                 length n = 30 \<and> length (slice 7 37 r) = 30 \<and> length cs = 30 \<and>
                 map_of (if_not_pC pC pC_photoreceptors) ''u'' = Some (cs ! 6))"
proof -
  from plotBars_keys_cover[OF assms(3)] obtain cs where
    cs: "getitems (if_not_pC pC pC_photoreceptors)
            [''r'', ''r'', ''r'', ''r'', ''r'', ''r'',
             ''u'', ''u'', ''u'', ''u'', ''u'',
             ''s'', ''s'', ''s'', ''s'', ''s'', ''s'',
             ''m'', ''m'', ''m'', ''m'', ''m'', ''m'', ''m'',
             ''l'', ''l'', ''l'', ''l'', ''l'', ''l''] = Inr cs"
     and len: "length cs = 30" and u: "map_of (if_not_pC pC pC_photoreceptors) ''u'' = Some (cs ! 6)"
    by blast
  let ?n = "arange 1 7 @ shifted 7 (arange 1 6) @ shifted 13 (arange 1 7)
                @ shifted 20 (arange 1 8) @ shifted 28 (arange 1 7)"
  have n: "length ?n = 30" by (simp add: arange_def shifted_def)
  have h: "length (slice 7 37 r) = 30" using assms(2) by (simp add: length_slice)
  have run: "plotBars df g pC = (Bar ?n (slice 7 37 r) 0.8 cs # formatBarPlot g, None)"
    using cs n h by (simp add: plotBars_def Let_def iloc_row0_Cons[OF assms(1)] bars_then_drawn)
  show ?thesis
    unfolding run using n h len u
    by (simp add: xticks_of_def xticklabels_of_def bar_of_def formatBarPlot_def)
qed

theorem plotBars_ticks_and_UV_color_witness:
  "cells (one_row 37 1) = [replicate 37 1] \<and> 37 \<le> length (replicate 37 (1::real)) \<and>
   {''r'', ''u'', ''s'', ''m'', ''l''} \<subseteq> fst ` set (if_not_pC None pC_photoreceptors) \<and>
   snd (plotBars (one_row 37 1) ''gene'' None) = None \<and>
   xticks_of (fst (plotBars (one_row 37 1) ''gene'' None)) = Some [3.5, 10, 16.5, 24, 31.5] \<and>
   xticklabels_of (fst (plotBars (one_row 37 1) ''gene'' None)) = Some [''Rods'', ''UV'', ''S'', ''M'', ''L'']"
proof -
  have h1: "cells (one_row 37 1) = replicate 37 1 # []" by (simp add: one_row_def)
  have h2: "37 \<le> length (replicate 37 (1::real))" by simp
  have h3: "{''r'', ''u'', ''s'', ''m'', ''l''} \<subseteq> fst ` set (if_not_pC None pC_photoreceptors)"
    by (simp add: if_not_pC_None pC_photoreceptors_def)
  show ?thesis
    using h1 h2 h3 plotBars_ticks_and_UV_color[OF h1 h2 h3, of "''gene''"] by blast
qed

section \<open>The percent-expressing columns of Ogawa2021\<close>

text \<open>
  Claim C8. \<^verbatim>\<open>plotBars_Ogawa2021\<close> on a row of at least 19 columns, with a palette that
  resolves the eight colour keys: with \<^verbatim>\<open>pctPlot\<close> the heights are the columns
  \<open>2+9, ..., 10+9-1\<close> of the row, without it the columns \<open>2, ..., 9\<close>; positions and colours
  of the bar call are the same in both calls, and so are the x ticks and the x tick labels
  set by the formatter. (The y-axis label follows the flag: \<^verbatim>\<open>% expressing\<close> against
  \<^verbatim>\<open>avg. counts\<close>.)
\<close>

theorem plotBars_Ogawa2021_percent_offset:
  assumes "cells df = r # rs" and "19 \<le> length r"
    and "getitems (if_not_pC pC pC_photoreceptors)
           [''r'', ''u'', ''s'', ''m'', ''l'', ''m4'', ''onBC'', ''offBC''] = Inr cs"
  shows "plotBars_Ogawa2021 df g pC True =
           (Bar (arange 1 9) (map (\<lambda>i. r ! i) [2 + 9..<10 + 9]) 0.8 cs
              # formatBarPlot_Ogawa2021 g True, None) \<and>
         plotBars_Ogawa2021 df g pC False =
           (Bar (arange 1 9) (map (\<lambda>i. r ! i) [2..<10]) 0.8 cs
              # formatBarPlot_Ogawa2021 g False, None) \<and>
         xticks_of (formatBarPlot_Ogawa2021 g True) = xticks_of (formatBarPlot_Ogawa2021 g False) \<and>
         xticklabels_of (formatBarPlot_Ogawa2021 g True) =
           xticklabels_of (formatBarPlot_Ogawa2021 g False) \<and>
         ylabel_of (formatBarPlot_Ogawa2021 g True) = Some ''% expressing'' \<and>
         ylabel_of (formatBarPlot_Ogawa2021 g False) = Some ''avg. counts''"
proof -
  have n: "length (arange 1 9) = 8" by (simp add: arange_def)
  have s1: "slice 11 19 r = map (\<lambda>i. r ! i) [11..<19]" using assms(2) by (intro slice_nth) simp
  have s0: "slice 2 10 r = map (\<lambda>i. r ! i) [2..<10]" using assms(2) by (intro slice_nth) simp
  have l1: "length (slice 11 19 r) = 8" using assms(2) by (simp add: length_slice)
  have l0: "length (slice 2 10 r) = 8" using assms(2) by (simp add: length_slice)
  have e: "2 + (if True then 9 else 0) = (11::nat)" "10 + (if True then 9 else 0) = (19::nat)"
          "2 + (if False then 9 else 0) = (2::nat)" "10 + (if False then 9 else 0) = (10::nat)"
    by simp_all
  have t: "plotBars_Ogawa2021 df g pC True =
           (Bar (arange 1 9) (slice 11 19 r) 0.8 cs # formatBarPlot_Ogawa2021 g True, None)"
    by (simp only: plotBars_Ogawa2021_def Let_def e iloc_row0_Cons[OF assms(1)] assms(3)
          bars_then_drawn[OF trans[OF l1 n[symmetric]]])
  have f: "plotBars_Ogawa2021 df g pC False =
           (Bar (arange 1 9) (slice 2 10 r) 0.8 cs # formatBarPlot_Ogawa2021 g False, None)"
    by (simp only: plotBars_Ogawa2021_def Let_def e iloc_row0_Cons[OF assms(1)] assms(3)
          bars_then_drawn[OF trans[OF l0 n[symmetric]]])
  have fmt: "xticks_of (formatBarPlot_Ogawa2021 g True) = xticks_of (formatBarPlot_Ogawa2021 g False)"
            "xticklabels_of (formatBarPlot_Ogawa2021 g True) = xticklabels_of (formatBarPlot_Ogawa2021 g False)"
            "ylabel_of (formatBarPlot_Ogawa2021 g True) = Some ''% expressing''"
            "ylabel_of (formatBarPlot_Ogawa2021 g False) = Some ''avg. counts''"
    by (simp_all add: formatBarPlot_Ogawa2021_def xticks_of_def xticklabels_of_def ylabel_of_def
          last_of_def)
  show ?thesis using t f fmt s1 s0 by simp
qed

theorem plotBars_Ogawa2021_percent_offset_witness:
  "cells counting_row = [map real [0..<19]] \<and> 19 \<le> length (map real [0..<19]) \<and>
   bar_of (fst (plotBars_Ogawa2021 counting_row ''gene'' None True)) =
     Some ([1, 2, 3, 4, 5, 6, 7, 8], [11, 12, 13, 14, 15, 16, 17, 18],
           [''#747474'', ''#B540B7'', ''#4669F2'', ''#04CD22'', ''#CC2C2A'', ''#cdcd04'',
            ''#ccf2ff'', ''#663d00'']) \<and>
   bar_of (fst (plotBars_Ogawa2021 counting_row ''gene'' None False)) =
     Some ([1, 2, 3, 4, 5, 6, 7, 8], [2, 3, 4, 5, 6, 7, 8, 9],
           [''#747474'', ''#B540B7'', ''#4669F2'', ''#04CD22'', ''#CC2C2A'', ''#cdcd04'',
            ''#ccf2ff'', ''#663d00''])"
proof -
  have h1: "cells counting_row = map real [0..<19] # []" by (simp add: counting_row_def)
  have h2: "19 \<le> length (map real [0..<19])" by simp
  have h3: "getitems (if_not_pC None pC_photoreceptors)
           [''r'', ''u'', ''s'', ''m'', ''l'', ''m4'', ''onBC'', ''offBC''] =
           Inr [''#747474'', ''#B540B7'', ''#4669F2'', ''#04CD22'', ''#CC2C2A'', ''#cdcd04'',
            ''#ccf2ff'', ''#663d00'']"
    by (simp add: if_not_pC_None pC_photoreceptors_def getitem_def)
  have a: "arange (Suc 0) 9 = [1, 2, 3, 4, 5, 6, 7, 8]"
    by (simp add: arange_def upt_conv_Cons)
  have b: "map (\<lambda>i. map real [0..<19] ! i) [2 + 9..<10 + 9] = [11, 12, 13, 14, 15, 16, 17, 18]"
          "map (\<lambda>i. map real [0..<19] ! i) [2..<10] = [2, 3, 4, 5, 6, 7, 8, 9]"
    by (simp_all add: upt_conv_Cons)
  show ?thesis
    using h1 h2 plotBars_Ogawa2021_percent_offset[OF h1 h2 h3, of "''gene''"]
    by (simp add: bar_of_def a b)
qed

section \<open>A row narrower than the slice\<close>

lemma bp_n_not_single: "length (bp_n (bars_profile w pct)) \<noteq> 1"
  by (cases w) (simp_all add: arange_def shifted_def)

text \<open>
  Claim C2, as the code has it. A column slice never raises: on a first row with fewer
  columns than the slice end, the slice is clipped to the columns present and holds
  \<open>length r - h_start\<close> values. No bar function fails with an index fault there. Either the
  palette lacks a key (a \<^verbatim>\<open>KeyError\<close>, nothing drawn), or the outcome is decided by the bar
  call: it raises the shape mismatch, with nothing drawn, unless the clipped values are as
  many as the bar positions or exactly one (which numpy broadcasts); then the bars are drawn.
\<close>

theorem narrow_row_is_clipped:
  assumes "cells df = r # rs" and "length r < bp_h_end (bars_profile w pct)"
  shows "snd (call_bars w df g pC pct) \<noteq> Some IndexError \<and>
         ((\<exists>k. call_bars w df g pC pct = ([], Some (KeyError k))) \<or>
          (if length r - bp_h_start (bars_profile w pct) = length (bp_n (bars_profile w pct)) \<or>
              length r - bp_h_start (bars_profile w pct) = 1
           then snd (call_bars w df g pC pct) = None \<and> bar_of (fst (call_bars w df g pC pct)) \<noteq> None
           else call_bars w df g pC pct = ([], Some ValueError)))"
proof -
  let ?p = "bars_profile w pct"
  let ?h = "slice (bp_h_start ?p) (bp_h_end ?p) r"
  have len: "length ?h = length r - bp_h_start ?p"
    using assms(2) by (simp add: length_slice)
  show ?thesis
  proof (cases "getitems (if_not_pC pC (bp_default ?p)) (bp_keys ?p)")
    case (Inl e)
    then obtain k where "e = KeyError k" using getitems_only_KeyError by blast
    with Inl show ?thesis
      by (simp add: call_bars_profile iloc_row0_Cons[OF assms(1)] bars_then_def raise_def)
  next
    case (Inr cs)
    have run: "call_bars w df g pC pct =
                 (case ax_bar (bp_n ?p) ?h cs of
                    Inl e \<Rightarrow> ([], Some e)
                  | Inr pH \<Rightarrow> (pH # bars_format w g pct, None))"
      using Inr
      by (simp add: call_bars_profile iloc_row0_Cons[OF assms(1)] bars_then_def raise_def
            then_draw_def done_ok_def split: sum.splits)
    show ?thesis
      unfolding run using len bp_n_not_single[of w pct]
      by (simp add: ax_bar_def bar_of_def)
  qed
qed

theorem narrow_row_is_clipped_witness:
  "cells (one_row 36 1) = [replicate 36 1] \<and>
   length (replicate 36 (1::real)) < bp_h_end (bars_profile PlotBars False) \<and>
   snd (call_bars PlotBars (one_row 36 1) ''gene'' None False) \<noteq> Some IndexError \<and>
   call_bars PlotBars (one_row 36 1) ''gene'' None False = ([], Some ValueError)"
proof -
  have h1: "cells (one_row 36 1) = replicate 36 1 # []" by (simp add: one_row_def)
  have h2: "length (replicate 36 (1::real)) < bp_h_end (bars_profile PlotBars False)" by simp
  have nk: "call_bars PlotBars (one_row 36 1) ''gene'' None False \<noteq> ([], Some (KeyError k))" for k
  proof
    assume "call_bars PlotBars (one_row 36 1) ''gene'' None False = ([], Some (KeyError k))"
    then have "snd (call (Bars PlotBars) (one_row 36 1) ''gene'' None False False) = Some (KeyError k)"
      by simp
    then show False using call_default_no_KeyError by blast
  qed
  have c: "\<not> (length (replicate 36 (1::real)) - bp_h_start (bars_profile PlotBars False)
                = length (bp_n (bars_profile PlotBars False)) \<or>
              length (replicate 36 (1::real)) - bp_h_start (bars_profile PlotBars False) = 1)"
    by (simp add: arange_def shifted_def)
  from narrow_row_is_clipped[OF h1 h2, of "''gene''" None] nk c
  have "snd (call_bars PlotBars (one_row 36 1) ''gene'' None False) \<noteq> Some IndexError \<and>
        call_bars PlotBars (one_row 36 1) ''gene'' None False = ([], Some ValueError)"
    by (metis (full_types))
  then show ?thesis using h1 h2 by blast
qed

text \<open>
  Claim C2 as stated (a row with fewer columns than the slice end makes the call fail with
  an out-of-bounds index fault while slicing) fails: \<^verbatim>\<open>plotBars_Sun2018\<close>, slice end 16, on
  a row of 15 columns draws its eight bars and returns normally; \<^verbatim>\<open>plotBars\<close>, slice end
  37, on a row of 36 columns fails in the bar call with the shape mismatch, not in the slice.
\<close>

theorem narrow_row_no_index_fault:
  "ncolumns (one_row 15 1) < bp_h_end (bars_profile PlotBars_Sun2018 False) \<and>
   snd (plotBars_Sun2018 (one_row 15 1) ''gene'' None) = None \<and>
   bar_of (fst (plotBars_Sun2018 (one_row 15 1) ''gene'' None)) =
     Some ([1, 2, 3, 4, 6, 7, 8, 9], [1, 1, 1, 1, 1, 1, 1, 1],
           [''#747474'', ''#747474'', ''#747474'', ''#747474'',
            ''#cdcd04'', ''#cdcd04'', ''#cdcd04'', ''#cdcd04'']) \<and>
   ncolumns (one_row 36 1) < bp_h_end (bars_profile PlotBars False) \<and>
   plotBars (one_row 36 1) ''gene'' None = ([], Some ValueError)"
  by (simp add: plotBars_Sun2018_def plotBars_def bars_then_def iloc_row0_def one_row_def
        slice_def if_not_pC_None pC_photoreceptors_def getitem_def ax_bar_def raise_def
        then_draw_def done_ok_def arange_def shifted_def bar_of_def upt_conv_Cons
        eval_nat_numeral)

section \<open>Row normalisation\<close>

lemma maximum_Max: "xs \<noteq> [] \<Longrightarrow> maximum xs = Max (set xs)"
proof (cases xs)
  case Nil
  assume "xs \<noteq> []"
  with Nil show ?thesis by simp
next
  case (Cons a list)
  then show ?thesis using Max.set_eq_fold[of a list] by simp
qed

lemma finite_values_Fin: "finite_values (map (\<lambda>v. Fin (f v)) xs) = Some (map f xs)"
  by (induction xs) simp_all

lemma Max_divide_pos:
  fixes m :: real
  assumes "0 < m" and "xs \<noteq> []"
  shows "Max (set (map (\<lambda>v. v / m) xs)) = Max (set xs) / m"
proof -
  have "mono (\<lambda>v::real. v / m)" using assms(1) by (simp add: mono_def divide_right_mono)
  from mono_Max_commute[OF this, of "set xs"] assms(2)
  show ?thesis by simp
qed

lemma norm_row_max:
  assumes "0 < maximum x"
  shows "row_max (norm_row x) = Some 1"
proof -
  from assms have ne: "x \<noteq> []" by (cases x) simp_all
  let ?m = "maximum x"
  have nr: "norm_row x = map (\<lambda>v. Fin (v / ?m)) x"
    using assms by (simp add: norm_row_def fdiv_def)
  have ne': "map (\<lambda>v. v / ?m) x \<noteq> []" using ne by simp
  then obtain y ys where y: "map (\<lambda>v. v / ?m) x = y # ys" by (cases "map (\<lambda>v. v / ?m) x") auto
  have "row_max (norm_row x) = Some (maximum (map (\<lambda>v. v / ?m) x))"
    unfolding nr row_max_def finite_values_Fin y by simp
  also have "maximum (map (\<lambda>v. v / ?m) x) = Max (set (map (\<lambda>v. v / ?m) x))"
    using ne' by (rule maximum_Max)
  also have "\<dots> = Max (set x) / ?m" using assms ne by (rule Max_divide_pos)
  also have "\<dots> = 1" using assms maximum_Max[OF ne] by simp
  finally show ?thesis .
qed

text \<open>
  Claim C5, as the code has it. After a heatmap function is called with \<^verbatim>\<open>norm=True\<close>, every
  row of the data block whose sliced values have a positive maximum has maximum exactly 1
  (unless the palette lacks a key, in which case nothing is drawn). The row is divided by
  its maximum, so the maximum must be positive, not merely some value nonzero.
\<close>

theorem normalized_row_max_is_one:
  assumes "i < length (cells df)"
    and "0 < maximum (slice (hp_h_start (heats_profile w pct)) (hp_h_end (heats_profile w pct))
                        (cells df ! i))"
  shows "(\<exists>k. call_heatmap w df pC pct True = ([], Some (KeyError k))) \<or>
         (length (row_maxima (call_heatmap w df pC pct True)) = length (cells df) \<and>
          row_maxima (call_heatmap w df pC pct True) ! i = Some 1)"
proof (cases "getitems (if_not_pC pC (hp_default (heats_profile w pct))) (hp_keys (heats_profile w pct))")
  case (Inl e)
  then obtain k where "e = KeyError k" using getitems_only_KeyError by blast
  with Inl have "heat_args w df pC pct True = Inl (KeyError k)" by (simp add: heat_args_Inl)
  then show ?thesis by (simp add: call_heatmap_args call_heatmap_general_def raise_def)
next
  case (Inr gc)
  let ?a = "hp_h_start (heats_profile w pct)" and ?b = "hp_h_end (heats_profile w pct)"
  from heat_args_Inr[OF Inr, of df True] obtain a where
    a: "heat_args w df pC pct True = Inr a" "hm_data a = block_of df ?a ?b True"
    by blast
  have rows: "rows (hm_data a) = map (\<lambda>r. norm_row (slice ?a ?b r)) (cells df)"
    using a(2) by (simp add: block_of_def apply_norm_def iloc_cols_def)
  have ne: "shape0 (hm_data a) \<noteq> 0" using assms(1) rows by (auto simp: shape0_def)
  have rm: "row_maxima (call_heatmap w df pC pct True) =
              map (\<lambda>r. row_max (norm_row (slice ?a ?b r))) (cells df)"
    using a(1) ne rows
    by (simp add: row_maxima_def call_heatmap_args call_heatmap_general_def heatmap_general_imshow)
  show ?thesis
    unfolding rm using assms(1) norm_row_max[OF assms(2)] by simp
qed

theorem normalized_row_max_is_one_witness:
  "0 < length (cells (one_row 37 3)) \<and>
   0 < maximum (slice (hp_h_start (heats_profile Heatmap False)) (hp_h_end (heats_profile Heatmap False))
                  (cells (one_row 37 3) ! 0)) \<and>
   row_maxima (call_heatmap Heatmap (one_row 37 3) None False True) ! 0 = Some 1"
proof -
  have h1: "0 < length (cells (one_row 37 3))" by (simp add: one_row_def)
  have s: "slice 7 37 (replicate 37 (3::real)) = replicate 30 3"
    by (simp add: slice_def)
  have "maximum (replicate 30 (3::real)) = Max (set (replicate 30 3))"
    by (rule maximum_Max) simp
  then have m: "maximum (replicate 30 (3::real)) = 3" by simp
  have h2: "0 < maximum (slice (hp_h_start (heats_profile Heatmap False)) (hp_h_end (heats_profile Heatmap False))
                  (cells (one_row 37 3) ! 0))"
    by (simp add: one_row_def s m)
  have nk: "call_heatmap Heatmap (one_row 37 3) None False True \<noteq> ([], Some (KeyError k))" for k
  proof
    assume "call_heatmap Heatmap (one_row 37 3) None False True = ([], Some (KeyError k))"
    then have "snd (call (Heat Heatmap) (one_row 37 3) ''gene'' None False True) = Some (KeyError k)"
      by simp
    then show False using call_default_no_KeyError by blast
  qed
  from normalized_row_max_is_one[OF h1 h2, of None] nk
  have "row_maxima (call_heatmap Heatmap (one_row 37 3) None False True) ! 0 = Some 1"
    by blast
  then show ?thesis using h1 h2 by blast
qed

text \<open>
  Claim C5 as stated (a row with at least one nonzero value has maximum 1 after
  normalisation) fails on a row whose values are all negative: \<^verbatim>\<open>heatmap_Hoang2020\<close> on the
  values \<open>-2, -2, -2, -2, -2, -2, -1\<close> divides by the maximum \<open>-1\<close> and draws the row
  \<open>2, 2, 2, 2, 2, 2, 1\<close>, whose maximum is 2.
\<close>

theorem negative_row_max_is_two:
  "0 \<notin> set (slice 2 9 (hd (cells negative_row))) \<and>
   row_maxima (heatmap_Hoang2020 negative_row None False True) = [Some 2]"
  by (simp add: negative_row_def slice_def row_maxima_def heatmap_Hoang2020_def
        heatmap_Hoang2020_args_def call_heatmap_general_def with_colors_def if_not_pC_None
        pC_photoreceptors_def getitem_def heatmap_general_imshow apply_norm_def iloc_cols_def
        shape0_def norm_row_def fdiv_def row_max_def)

section \<open>The other functions\<close>

text \<open>
  Apart from the two Sun2018 functions, group sizes, positions and colour keys are as many
  as the columns sliced; apart from \<^verbatim>\<open>heatmap_Nerli2022\<close>, the normalised colorbar label is
  the raw one with \<^verbatim>\<open>norm.\<close> in front.
\<close>

lemma groups_cover_slice_elsewhere:
  "w \<noteq> Heatmap_Sun2018 \<Longrightarrow>
   sum_list (hp_groupsN (heats_profile w pct)) =
     hp_h_end (heats_profile w pct) - hp_h_start (heats_profile w pct)"
  by (cases w) (simp_all add: sum_list_replicate)

lemma bars_lengths_agree_elsewhere:
  "w \<noteq> PlotBars_Sun2018 \<Longrightarrow>
   length (bp_n (bars_profile w pct)) = bp_h_end (bars_profile w pct) - bp_h_start (bars_profile w pct) \<and>
   length (bp_keys (bars_profile w pct)) = bp_h_end (bars_profile w pct) - bp_h_start (bars_profile w pct)"
  by (cases w) (simp_all add: arange_def shifted_def keys_Xu2020_RetDev_def keys_Hoang2020_Ret_def)

lemma cbar_label_of_Nil: "cbar_label_of [] = None"
  by (simp add: cbar_label_of_def)

lemma norm_label_elsewhere:
  "w \<noteq> Heatmap_Nerli2022 \<Longrightarrow>
   cbar_label_of (fst (call_heatmap w df pC pct True)) =
     map_option (\<lambda>l. ''norm. '' @ l) (cbar_label_of (fst (call_heatmap w df pC pct False)))"
  by (cases w)
     (auto simp: heat_defs heat_args_defs Let_def with_colors_def call_heatmap_general_def raise_def
        heatmap_general_cbar_label cbar_label_of_Nil split: sum.splits)

end
